theory Spec2Isabelle
  imports Complex_Main "HOL-Library.Sublist" "HOL-Library.Multiset"
begin

section \<open>Values, the runtime environment and its trace\<close>

text \<open>
  The two entry scripts, \<^verbatim>\<open>main.py\<close> and \<^verbatim>\<open>jupyter_analysis.py\<close>, are straight-line
  orchestration code: every statement is a \<^verbatim>\<open>print\<close>, or an operation on an object that
  the collaborating modules (\<^verbatim>\<open>src.data_loader\<close>, \<^verbatim>\<open>src.data_cleaner\<close>,
  \<^verbatim>\<open>src.eda_analyzer\<close>, \<^verbatim>\<open>src.feature_engineer\<close>, \<^verbatim>\<open>src.ml_models\<close>) and the plotting
  and numeric libraries hand out. Those modules are not among the sources, so what they do
  is a parameter of the model: an environment that answers every operation with a value or
  an exception and moves its own state on.

  Python values as far as the scripts can tell them apart: \<^verbatim>\<open>None\<close>, the literals the
  scripts write themselves, the names bound by the import statements, the dictionary that
  a pipeline function returns, and opaque objects (a reference into the environment).
\<close>

datatype val =
    VNone
  | VBool bool
  | VInt int
  | VStr string
  | VTuple "val list"
  | VDict "(string \<times> val) list"
  | VGlobal string
  | VObj nat

text \<open>An exception is known by the name of its class.\<close>

datatype exn = Exn string

text \<open>
  The operations the scripts perform on the environment, one constructor per syntactic
  form of the source: \<^verbatim>\<open>import m\<close> and \<^verbatim>\<open>from m import n\<close>, a call \<^verbatim>\<open>f(args, k=v)\<close>, a
  method call \<^verbatim>\<open>o.m(args, k=v)\<close>, \<^verbatim>\<open>o.a\<close>, \<^verbatim>\<open>o[k]\<close>, \<^verbatim>\<open>o[k] = v\<close>, \<^verbatim>\<open>k in o\<close>,
  \<^verbatim>\<open>hasattr(o, a)\<close>, \<^verbatim>\<open>len(o)\<close>, \<^verbatim>\<open>list(o)\<close>, the formatting of a value inside an
  f-string (\<^verbatim>\<open>{o:spec}\<close>), and the iteration that unpacks \<^verbatim>\<open>a, b = o\<close>.
\<close>

datatype extop =
    Import string
  | ImportFrom string string
  | CallFn val "val list" "(string \<times> val) list"
  | CallMethod val string "val list" "(string \<times> val) list"
  | GetAttr val string
  | GetItem val val
  | SetItem val val val
  | Contains val val
  | HasAttr val string
  | Len val
  | ToList val
  | Format val string
  | Iterate val

text \<open>
  What a run leaves behind, in order: the lines the script itself prints, and every
  operation on the environment together with its answer (\<open>Inl\<close> an exception).
\<close>

datatype event = Print string | Ext extop "exn + val"

text \<open>
  The environment, by the sort of answer Python guarantees for the operation: any
  object, a \<^verbatim>\<open>bool\<close> (\<^verbatim>\<open>in\<close>, \<^verbatim>\<open>hasattr\<close>), an \<^verbatim>\<open>int\<close> (\<^verbatim>\<open>len\<close>), a \<^verbatim>\<open>str\<close>
  (formatting), a finite sequence of objects (unpacking). \<open>'w\<close> is the state of
  everything outside the script: the objects of the libraries, the file system, the
  figures.
\<close>

record 'w env =
  env_val :: "extop \<Rightarrow> 'w \<Rightarrow> (exn + val) \<times> 'w"
  env_bool :: "extop \<Rightarrow> 'w \<Rightarrow> (exn + bool) \<times> 'w"
  env_int :: "extop \<Rightarrow> 'w \<Rightarrow> (exn + int) \<times> 'w"
  env_str :: "extop \<Rightarrow> 'w \<Rightarrow> (exn + string) \<times> 'w"
  env_list :: "extop \<Rightarrow> 'w \<Rightarrow> (exn + val list) \<times> 'w"

section \<open>Programs: state passing with exceptions and a log\<close>

text \<open>
  A program takes the state of the environment and gives back how it ended (\<open>Inl\<close> an
  exception that nothing caught, \<open>Inr\<close> a normal result), the state it left, and the
  events it produced, oldest first.
\<close>

type_synonym ('a, 'w) prog = "'w \<Rightarrow> (exn + 'a) \<times> 'w \<times> event list"

definition outcome :: "(exn + 'a) \<times> 'w \<times> event list \<Rightarrow> exn + 'a" where
  "outcome run = fst run"

definition events :: "(exn + 'a) \<times> 'w \<times> event list \<Rightarrow> event list" where
  "events run = snd (snd run)"

definition ret :: "'a \<Rightarrow> ('a, 'w) prog" where
  "ret x = (\<lambda>w. (Inr x, w, []))"

definition raise :: "exn \<Rightarrow> ('a, 'w) prog" where
  "raise e = (\<lambda>w. (Inl e, w, []))"

text \<open>
  Sequencing. The scripts contain no \<^verbatim>\<open>try\<close> statement, so this is the only way two
  statements are combined: an exception of the first ends the run.
\<close>

definition bind :: "('a, 'w) prog \<Rightarrow> ('a \<Rightarrow> ('b, 'w) prog) \<Rightarrow> ('b, 'w) prog" where
  "bind m k = (\<lambda>w. case m w of
      (Inl e, w', evs) \<Rightarrow> (Inl e, w', evs)
    | (Inr x, w', evs) \<Rightarrow> (case k x w' of (r, w'', evs') \<Rightarrow> (r, w'', evs @ evs')))"

definition say :: "string \<Rightarrow> (unit, 'w) prog" where
  "say line = (\<lambda>w. (Inr (), w, [Print line]))"

primrec says :: "string list \<Rightarrow> (unit, 'w) prog" where
  "says [] = ret ()"
| "says (l # ls) = bind (say l) (\<lambda>_. says ls)"

text \<open>One operation on the environment: ask, log the operation with its answer, go on.\<close>

definition ext :: "(extop \<Rightarrow> 'w \<Rightarrow> (exn + 'a) \<times> 'w) \<Rightarrow> ('a \<Rightarrow> val) \<Rightarrow> extop \<Rightarrow> ('a, 'w) prog" where
  "ext f enc opn = (\<lambda>w. case f opn w of
      (Inl e, w') \<Rightarrow> (Inl e, w', [Ext opn (Inl e)])
    | (Inr x, w') \<Rightarrow> (Inr x, w', [Ext opn (Inr (enc x))]))"

definition ext_val :: "'w env \<Rightarrow> extop \<Rightarrow> (val, 'w) prog" where
  "ext_val E = ext (env_val E) (\<lambda>v. v)"

definition ext_bool :: "'w env \<Rightarrow> extop \<Rightarrow> (bool, 'w) prog" where
  "ext_bool E = ext (env_bool E) VBool"

definition ext_int :: "'w env \<Rightarrow> extop \<Rightarrow> (int, 'w) prog" where
  "ext_int E = ext (env_int E) VInt"

definition ext_str :: "'w env \<Rightarrow> extop \<Rightarrow> (string, 'w) prog" where
  "ext_str E = ext (env_str E) VStr"

definition ext_list :: "'w env \<Rightarrow> extop \<Rightarrow> (val list, 'w) prog" where
  "ext_list E = ext (env_list E) VTuple"

text \<open>The expression forms of the source, by name.\<close>

definition new :: "'w env \<Rightarrow> string \<Rightarrow> val list \<Rightarrow> (val, 'w) prog" where
  "new E cls args = ext_val E (CallFn (VGlobal cls) args [])"

definition call :: "'w env \<Rightarrow> val \<Rightarrow> string \<Rightarrow> val list \<Rightarrow> (val, 'w) prog" where
  "call E recv m args = ext_val E (CallMethod recv m args [])"

definition attr :: "'w env \<Rightarrow> val \<Rightarrow> string \<Rightarrow> (val, 'w) prog" where
  "attr E v a = ext_val E (GetAttr v a)"

definition item :: "'w env \<Rightarrow> val \<Rightarrow> val \<Rightarrow> (val, 'w) prog" where
  "item E v k = ext_val E (GetItem v k)"

definition fmt :: "'w env \<Rightarrow> val \<Rightarrow> string \<Rightarrow> (string, 'w) prog" where
  "fmt E v spec = ext_str E (Format v spec)"

text \<open>
  \<^verbatim>\<open>a, b = v\<close>: the value is iterated, and anything but two items raises
  \<^verbatim>\<open>ValueError\<close>.
\<close>

definition unpack2 :: "'w env \<Rightarrow> val \<Rightarrow> (val \<times> val, 'w) prog" where
  "unpack2 E v = bind (ext_list E (Iterate v)) (\<lambda>vs.
     case vs of [a, b] \<Rightarrow> ret (a, b) | _ \<Rightarrow> raise (Exn ''ValueError''))"

section \<open>Literals of the scripts\<close>

definition nl :: string where
  "nl = [CHR 0x0A]"

text \<open>\<^verbatim>\<open>"="*n\<close>\<close>

definition rule_of :: "nat \<Rightarrow> string" where
  "rule_of n = replicate n CHR ''=''"

text \<open>
  The column name \<^verbatim>\<open>Test R\<close> followed by a superscript two, and the plus-minus sign; both
  signs as their UTF-8 bytes.
\<close>

definition key_test_r2 :: string where
  "key_test_r2 = ''Test R'' @ [CHR 0xC2, CHR 0xB2]"

definition plus_minus :: string where
  "plus_minus = [CHR 0xC2, CHR 0xB1]"

definition csv_path :: string where
  "csv_path = ''data/IMDb Movies India.csv''"

section \<open>main.py\<close>

text \<open>\<^verbatim>\<open>o.m(args, k=v)\<close> and the f-string field \<^verbatim>\<open>{o[k]:spec}\<close>.\<close>

definition call_kw :: "'w env \<Rightarrow> val \<Rightarrow> string \<Rightarrow> val list \<Rightarrow> (string \<times> val) list \<Rightarrow> (val, 'w) prog" where
  "call_kw E recv m args kw = ext_val E (CallMethod recv m args kw)"

definition item_fmt :: "'w env \<Rightarrow> val \<Rightarrow> string \<Rightarrow> string \<Rightarrow> (string, 'w) prog" where
  "item_fmt E v k spec = bind (item E v (VStr k)) (\<lambda>x. fmt E x spec)"

text \<open>
  \<^verbatim>\<open>'yearly_ratings' in eda_report and eda_report['yearly_ratings'] is not None\<close>, the
  condition both scripts use; \<^verbatim>\<open>and\<close> evaluates its right operand only when the left one
  is true.
\<close>

definition has_yearly_ratings :: "'w env \<Rightarrow> val \<Rightarrow> (bool, 'w) prog" where
  "has_yearly_ratings E eda_report =
     bind (ext_bool E (Contains (VStr ''yearly_ratings'') eda_report)) (\<lambda>b.
     if b then bind (item E eda_report (VStr ''yearly_ratings'')) (\<lambda>v. ret (v \<noteq> VNone))
     else ret False)"

text \<open>
  The function \<^verbatim>\<open>main\<close> (main.py, lines 19 to 124), statement by statement. Its body
  is cut at the step comments of the source; each step hands on the variables that later
  statements read.
\<close>

text \<open>\<^verbatim>\<open># Step 2: Clean Data\<close> (lines 38 to 47)\<close>

definition step2_clean_data :: "'w env \<Rightarrow> val \<Rightarrow> (val, 'w) prog" where
  "step2_clean_data E df =
    bind (say (nl @ ''2. CLEANING DATA...'')) (\<lambda>_.
    bind (new E ''DataCleaner'' [df]) (\<lambda>cleaner.
    bind (call E cleaner ''clean_data'' []) (\<lambda>df_clean.
    bind (call E cleaner ''get_cleaned_summary'' []) (\<lambda>summary.
    bind (say (nl @ ''Cleaning Summary:'')) (\<lambda>_.
    bind (item_fmt E summary ''shape'' []) (\<lambda>t.
    bind (say (''Final shape: '' @ t)) (\<lambda>_.
    bind (item_fmt E summary ''missing_values'' []) (\<lambda>t.
    bind (say (''Missing values: '' @ t)) (\<lambda>_.
    ret df_clean)))))))))"

text \<open>\<^verbatim>\<open># Step 3: Exploratory Data Analysis\<close> (lines 49 to 52)\<close>

definition step3_exploratory_data_analysis :: "'w env \<Rightarrow> val \<Rightarrow> (val, 'w) prog" where
  "step3_exploratory_data_analysis E df_clean =
    bind (say (nl @ ''3. EXPLORATORY DATA ANALYSIS...'')) (\<lambda>_.
    bind (new E ''EDAAnalyzer'' [df_clean]) (\<lambda>eda.
    bind (call E eda ''generate_comprehensive_report'' []) (\<lambda>eda_report.
    ret eda_report)))"

text \<open>\<^verbatim>\<open># Step 4: Feature Engineering\<close> (lines 54 to 60)\<close>

definition step4_feature_engineering :: "'w env \<Rightarrow> val \<Rightarrow> (val \<times> val, 'w) prog" where
  "step4_feature_engineering E df_clean =
    bind (say (nl @ ''4. FEATURE ENGINEERING...'')) (\<lambda>_.
    bind (new E ''FeatureEngineer'' [df_clean]) (\<lambda>feature_engineer.
    bind (call E feature_engineer ''create_features'' []) (\<lambda>df_features.
    bind (call_kw E feature_engineer ''prepare_for_ml'' []
            [(''target_col'', VStr ''rating'')]) (\<lambda>xy.
    unpack2 E xy))))"

text \<open>
  \<^verbatim>\<open># Step 5: Machine Learning Models\<close> with the hyperparameter tuning and the final
  evaluation (lines 62 to 85)
\<close>

definition step5_machine_learning_models :: "'w env \<Rightarrow> val \<Rightarrow> val \<Rightarrow> (val \<times> val, 'w) prog" where
  "step5_machine_learning_models E X y =
    bind (say (nl @ ''5. MACHINE LEARNING MODELING...'')) (\<lambda>_.
    bind (new E ''MovieRatingPredictor'' [X, y]) (\<lambda>predictor.
    bind (call E predictor ''train_models'' []) (\<lambda>_.
    bind (call E predictor ''evaluate_models'' []) (\<lambda>results_df.
    bind (call E predictor ''plot_model_comparison'' []) (\<lambda>_.
    bind (call E predictor ''plot_predictions'' []) (\<lambda>_.
    bind (call E predictor ''get_feature_importance'' []) (\<lambda>importance_df.
    bind (say (nl @ ''6. HYPERPARAMETER TUNING...'')) (\<lambda>_.
    bind (call E predictor ''hyperparameter_tuning'' [VStr ''Random Forest'']) (\<lambda>_.
    bind (call E predictor ''hyperparameter_tuning'' [VStr ''Gradient Boosting'']) (\<lambda>_.
    bind (call E predictor ''evaluate_models'' []) (\<lambda>final_results.
    ret (predictor, final_results))))))))))))"

text \<open>
  \<^verbatim>\<open># Step 6: Generate Final Report\<close>, in three parts: the heading with the dataset
  summary (lines 87 to 96), the best model (lines 98 to 103), the key insights with the
  closing banner (lines 105 to 115).
\<close>

definition step6_dataset_summary :: "'w env \<Rightarrow> val \<Rightarrow> val \<Rightarrow> val \<Rightarrow> (unit, 'w) prog" where
  "step6_dataset_summary E df_clean X y =
    bind (says [nl @ rule_of 60, ''FINAL ANALYSIS REPORT'', rule_of 60,
                nl @ ''Dataset Summary:'']) (\<lambda>_.
    bind (ext_int E (Len df_clean)) (\<lambda>n.
    bind (fmt E (VInt n) '','') (\<lambda>t.
    bind (say (''- Total movies analyzed: '' @ t)) (\<lambda>_.
    bind (attr E X ''shape'') (\<lambda>shape.
    bind (item E shape (VInt 1)) (\<lambda>n_features.
    bind (fmt E n_features []) (\<lambda>t.
    bind (say (''- Features engineered: '' @ t)) (\<lambda>_.
    bind (call E y ''mean'' []) (\<lambda>y_mean.
    bind (fmt E y_mean ''.2f'') (\<lambda>t.
    bind (say (''- Average rating: '' @ t)) (\<lambda>_.
    bind (call E y ''std'' []) (\<lambda>y_std.
    bind (fmt E y_std ''.2f'') (\<lambda>t.
    say (''- Rating standard deviation: '' @ t))))))))))))))"

definition step6_best_model_performance :: "'w env \<Rightarrow> val \<Rightarrow> (val, 'w) prog" where
  "step6_best_model_performance E final_results =
    bind (say (nl @ ''Best Model Performance:'')) (\<lambda>_.
    bind (attr E final_results ''iloc'') (\<lambda>iloc.
    bind (item E iloc (VInt 0)) (\<lambda>best_model_row.
    bind (item_fmt E best_model_row ''Model'' []) (\<lambda>t.
    bind (say (''- Model: '' @ t)) (\<lambda>_.
    bind (item_fmt E best_model_row key_test_r2 ''.4f'') (\<lambda>t.
    bind (say (''- '' @ key_test_r2 @ '': '' @ t)) (\<lambda>_.
    bind (item_fmt E best_model_row ''Test RMSE'' ''.4f'') (\<lambda>t.
    bind (say (''- Test RMSE: '' @ t)) (\<lambda>_.
    bind (item_fmt E best_model_row ''Test MAE'' ''.4f'') (\<lambda>t.
    bind (say (''- Test MAE: '' @ t)) (\<lambda>_.
    ret best_model_row)))))))))))"

text \<open>Lines 107 and 108, the body of the \<^verbatim>\<open>if\<close> of the key insights.\<close>

definition best_year_insight :: "'w env \<Rightarrow> val \<Rightarrow> (unit, 'w) prog" where
  "best_year_insight E eda_report =
    bind (item E eda_report (VStr ''yearly_ratings'')) (\<lambda>yr1.
    bind (attr E yr1 ''loc'') (\<lambda>loc.
    bind (item E eda_report (VStr ''yearly_ratings'')) (\<lambda>yr2.
    bind (item E yr2 (VStr ''mean'')) (\<lambda>means.
    bind (call E means ''idxmax'' []) (\<lambda>i.
    bind (item E loc i) (\<lambda>best_year.
    bind (item_fmt E best_year ''year'' []) (\<lambda>t1.
    bind (item_fmt E best_year ''mean'' ''.2f'') (\<lambda>t2.
    say (''- Best year for movies: '' @ t1 @ '' (avg rating: '' @ t2 @ '')'')))))))))"

definition step6_key_insights :: "'w env \<Rightarrow> val \<Rightarrow> val \<Rightarrow> (unit, 'w) prog" where
  "step6_key_insights E eda_report best_model_row =
    bind (say (nl @ ''Key Insights:'')) (\<lambda>_.
    bind (has_yearly_ratings E eda_report) (\<lambda>c.
    bind (if c then best_year_insight E eda_report else ret ()) (\<lambda>_.
    bind (item_fmt E best_model_row key_test_r2 ''.1%'') (\<lambda>t.
    bind (say (''- Model can predict movie ratings with '' @ t @ '' accuracy'')) (\<lambda>_.
    bind (item_fmt E best_model_row ''Test RMSE'' ''.2f'') (\<lambda>t.
    bind (say (''- Average prediction error: '' @ plus_minus @ t @ '' rating points'')) (\<lambda>_.
    says [nl @ rule_of 60, ''ANALYSIS COMPLETED SUCCESSFULLY!'', rule_of 60])))))))"

text \<open>
  \<^verbatim>\<open>main\<close> itself: step 1 with its early \<^verbatim>\<open>return\<close> (lines 21 to 36), the later steps,
  and the dictionary that is returned (lines 117 to 124).
\<close>

definition main :: "'w env \<Rightarrow> (val, 'w) prog" where
  "main E =
    bind (says [rule_of 60, ''MOVIE RATING PREDICTION SYSTEM'', rule_of 60,
                nl @ ''1. LOADING DATA...'']) (\<lambda>_.
    bind (new E ''DataLoader'' [VStr csv_path]) (\<lambda>data_loader.
    bind (call E data_loader ''load_data'' []) (\<lambda>df.
    if df = VNone then
      bind (say ''Failed to load data. Please check the file path.'') (\<lambda>_. ret VNone)
    else
    bind (call E data_loader ''get_data_info'' []) (\<lambda>_.
    bind (call E data_loader ''get_basic_stats'' []) (\<lambda>_.
    bind (step2_clean_data E df) (\<lambda>df_clean.
    bind (step3_exploratory_data_analysis E df_clean) (\<lambda>eda_report.
    bind (step4_feature_engineering E df_clean) (\<lambda>(X, y).
    bind (step5_machine_learning_models E X y) (\<lambda>(predictor, final_results).
    bind (step6_dataset_summary E df_clean X y) (\<lambda>_.
    bind (step6_best_model_performance E final_results) (\<lambda>best_model_row.
    bind (step6_key_insights E eda_report best_model_row) (\<lambda>_.
    ret (VDict [(''cleaned_data'', df_clean), (''features'', X), (''target'', y),
                (''model_results'', final_results), (''eda_report'', eda_report),
                (''predictor'', predictor)])))))))))))))"

text \<open>The lines printed under \<^verbatim>\<open>if __name__ == "__main__"\<close> after \<^verbatim>\<open>main()\<close> has returned.\<close>

definition main_epilogue :: "string list" where
  "main_epilogue =
    [nl @ rule_of 60, ''ADDITIONAL ANALYSIS SUGGESTIONS'', rule_of 60,
     nl @ ''1. Future Predictions:'',
     ''   - Predict ratings for upcoming movies'',
     ''   - Analyze trends in movie preferences'',
     ''   - Identify factors that lead to high ratings'',
     nl @ ''2. Business Applications:'',
     ''   - Help producers understand what makes a successful movie'',
     ''   - Assist in movie recommendation systems'',
     ''   - Guide investment decisions in film production'',
     nl @ ''3. Further Analysis:'',
     ''   - Sentiment analysis of movie descriptions'',
     ''   - Network analysis of actor-director collaborations'',
     ''   - Time series analysis of rating trends'',
     ''   - Regional preferences analysis'',
     nl @ ''4. Model Improvements:'',
     ''   - Ensemble methods combining multiple models'',
     ''   - Deep learning approaches'',
     ''   - Feature selection optimization'',
     ''   - Cross-validation with time-based splits'']"

text \<open>The import statements both modules start with (lines 7 to 16 of either file).\<close>

definition import_block :: "'w env \<Rightarrow> (unit, 'w) prog" where
  "import_block E =
    bind (ext_val E (Import ''pandas'')) (\<lambda>_.
    bind (ext_val E (Import ''numpy'')) (\<lambda>_.
    bind (ext_val E (Import ''matplotlib.pyplot'')) (\<lambda>_.
    bind (ext_val E (Import ''seaborn'')) (\<lambda>_.
    bind (ext_val E (ImportFrom ''src.data_loader'' ''DataLoader'')) (\<lambda>_.
    bind (ext_val E (ImportFrom ''src.data_cleaner'' ''DataCleaner'')) (\<lambda>_.
    bind (ext_val E (ImportFrom ''src.eda_analyzer'' ''EDAAnalyzer'')) (\<lambda>_.
    bind (ext_val E (ImportFrom ''src.feature_engineer'' ''FeatureEngineer'')) (\<lambda>_.
    bind (ext_val E (ImportFrom ''src.ml_models'' ''MovieRatingPredictor'')) (\<lambda>_.
    bind (ext_val E (Import ''warnings'')) (\<lambda>_. ret ()))))))))))"

text \<open>
  The module \<^verbatim>\<open>main.py\<close> as a whole: what executing its top level does. \<open>as_script\<close> says
  whether \<^verbatim>\<open>__name__ == "__main__"\<close>, that is, whether the file is run rather than
  imported. The result is the module's global \<^verbatim>\<open>results\<close>, when it gets bound.
\<close>

definition main_py :: "bool \<Rightarrow> 'w env \<Rightarrow> (val option, 'w) prog" where
  "main_py as_script E =
    bind (import_block E) (\<lambda>_.
    bind (call E (VGlobal ''warnings'') ''filterwarnings'' [VStr ''ignore'']) (\<lambda>_.
    if as_script then
      bind (main E) (\<lambda>results.
      bind (says main_epilogue) (\<lambda>_. ret (Some results)))
    else ret None))"

section \<open>jupyter\_analysis.py\<close>

definition load_and_explore_data :: "'w env \<Rightarrow> (val, 'w) prog" where
  "load_and_explore_data E =
    bind (say ''Loading and exploring data...'') (\<lambda>_.
    bind (new E ''DataLoader'' [VStr csv_path]) (\<lambda>loader.
    bind (call E loader ''load_data'' []) (\<lambda>df.
    if df = VNone then
      bind (say ''Error: Could not load data file'') (\<lambda>_. ret VNone)
    else
    bind (call E loader ''get_data_info'' []) (\<lambda>_.
    ret df))))"

definition clean_and_preprocess :: "'w env \<Rightarrow> val \<Rightarrow> (val, 'w) prog" where
  "clean_and_preprocess E df =
    bind (say (nl @ ''Cleaning and preprocessing data...'')) (\<lambda>_.
    bind (new E ''DataCleaner'' [df]) (\<lambda>cleaner.
    bind (call E cleaner ''clean_data'' []) (\<lambda>df_clean.
    bind (attr E df_clean ''shape'') (\<lambda>shape.
    bind (fmt E shape []) (\<lambda>t.
    bind (say (''Cleaned data shape: '' @ t)) (\<lambda>_.
    bind (attr E df_clean ''columns'') (\<lambda>columns.
    bind (ext_val E (ToList columns)) (\<lambda>column_list.
    bind (fmt E column_list []) (\<lambda>t.
    bind (say (''Columns: '' @ t)) (\<lambda>_.
    ret df_clean))))))))))"

definition perform_eda :: "'w env \<Rightarrow> val \<Rightarrow> (val, 'w) prog" where
  "perform_eda E df =
    bind (say (nl @ ''Performing Exploratory Data Analysis...'')) (\<lambda>_.
    bind (new E ''EDAAnalyzer'' [df]) (\<lambda>analyzer.
    bind (call E analyzer ''generate_comprehensive_report'' []) (\<lambda>report.
    ret report)))"

definition build_and_evaluate_models :: "'w env \<Rightarrow> val \<Rightarrow> (val \<times> val \<times> val, 'w) prog" where
  "build_and_evaluate_models E df =
    bind (say (nl @ ''Building and evaluating machine learning models...'')) (\<lambda>_.
    bind (new E ''FeatureEngineer'' [df]) (\<lambda>engineer.
    bind (call E engineer ''create_features'' []) (\<lambda>df_features.
    bind (call E engineer ''prepare_for_ml'' []) (\<lambda>xy.
    bind (unpack2 E xy) (\<lambda>(X, y).
    bind (new E ''MovieRatingPredictor'' [X, y]) (\<lambda>predictor.
    bind (call E predictor ''train_models'' []) (\<lambda>_.
    bind (call E predictor ''evaluate_models'' []) (\<lambda>results.
    bind (call E predictor ''plot_model_comparison'' []) (\<lambda>_.
    bind (call E predictor ''plot_predictions'' []) (\<lambda>_.
    bind (call E predictor ''get_feature_importance'' []) (\<lambda>importance.
    ret (predictor, results, importance))))))))))))"

text \<open>
  \<^verbatim>\<open>'genre_analysis' in eda_report and len(eda_report['genre_analysis']) > 0\<close>
\<close>

definition has_genre_analysis :: "'w env \<Rightarrow> val \<Rightarrow> (bool, 'w) prog" where
  "has_genre_analysis E eda_report =
     bind (ext_bool E (Contains (VStr ''genre_analysis'') eda_report)) (\<lambda>b.
     if b then
       bind (item E eda_report (VStr ''genre_analysis'')) (\<lambda>g.
       bind (ext_int E (Len g)) (\<lambda>n. ret (n > 0)))
     else ret False)"

text \<open>
  \<^verbatim>\<open>generate_insights\<close> (lines 89 to 127), cut at the comments of the source:
  data insights, year insights, genre insights, model insights, recommendations.
\<close>

definition data_insights :: "'w env \<Rightarrow> val \<Rightarrow> (unit, 'w) prog" where
  "data_insights E df =
    bind (says [nl @ rule_of 50, ''KEY INSIGHTS AND RECOMMENDATIONS'', rule_of 50,
                nl @ ''1. DATASET OVERVIEW:'']) (\<lambda>_.
    bind (ext_int E (Len df)) (\<lambda>n.
    bind (fmt E (VInt n) '','') (\<lambda>t.
    bind (say (''   - Total movies: '' @ t)) (\<lambda>_.
    bind (item E df (VStr ''rating'')) (\<lambda>r.
    bind (call E r ''mean'' []) (\<lambda>m.
    bind (fmt E m ''.2f'') (\<lambda>t.
    bind (say (''   - Average rating: '' @ t)) (\<lambda>_.
    bind (item E df (VStr ''rating'')) (\<lambda>r1.
    bind (call E r1 ''min'' []) (\<lambda>lo.
    bind (fmt E lo ''.1f'') (\<lambda>t1.
    bind (item E df (VStr ''rating'')) (\<lambda>r2.
    bind (call E r2 ''max'' []) (\<lambda>hi.
    bind (fmt E hi ''.1f'') (\<lambda>t2.
    say (''   - Rating range: '' @ t1 @ '' - '' @ t2)))))))))))))))"

text \<open>Lines 103 to 106 and line 107, the body of the \<^verbatim>\<open>if\<close> of the year insights.\<close>

definition best_year_lines :: "'w env \<Rightarrow> val \<Rightarrow> (unit, 'w) prog" where
  "best_year_lines E yearly_data =
    bind (attr E yearly_data ''loc'') (\<lambda>loc.
    bind (item E yearly_data (VStr ''mean'')) (\<lambda>means.
    bind (call E means ''idxmax'' []) (\<lambda>i.
    bind (item E loc i) (\<lambda>best_year.
    bind (say (nl @ ''2. TEMPORAL INSIGHTS:'')) (\<lambda>_.
    bind (item_fmt E best_year ''year'' []) (\<lambda>t1.
    bind (item_fmt E best_year ''mean'' ''.2f'') (\<lambda>t2.
    say (''   - Best year for movies: '' @ t1 @ '' (avg: '' @ t2 @ '')''))))))))"

definition most_productive_year_line :: "'w env \<Rightarrow> val \<Rightarrow> (unit, 'w) prog" where
  "most_productive_year_line E yearly_data =
    bind (attr E yearly_data ''loc'') (\<lambda>loc.
    bind (item E yearly_data (VStr ''count'')) (\<lambda>counts.
    bind (call E counts ''idxmax'' []) (\<lambda>j.
    bind (item E loc (VTuple [j, VStr ''year''])) (\<lambda>busiest.
    bind (fmt E busiest []) (\<lambda>t.
    say (''   - Most productive year: '' @ t))))))"

definition year_insights :: "'w env \<Rightarrow> val \<Rightarrow> (unit, 'w) prog" where
  "year_insights E eda_report =
    bind (has_yearly_ratings E eda_report) (\<lambda>c.
    if c then
      bind (item E eda_report (VStr ''yearly_ratings'')) (\<lambda>yearly_data.
      bind (best_year_lines E yearly_data) (\<lambda>_.
      most_productive_year_line E yearly_data))
    else ret ())"

definition genre_insights :: "'w env \<Rightarrow> val \<Rightarrow> (unit, 'w) prog" where
  "genre_insights E eda_report =
    bind (has_genre_analysis E eda_report) (\<lambda>c.
    if c then
      bind (say (nl @ ''3. GENRE INSIGHTS:'')) (\<lambda>_.
      bind (item E eda_report (VStr ''genre_analysis'')) (\<lambda>g.
      bind (attr E g ''iloc'') (\<lambda>iloc.
      bind (item E iloc (VInt 0)) (\<lambda>top_genre.
      bind (ext_bool E (HasAttr top_genre ''name'')) (\<lambda>h.
      bind (if h then attr E top_genre ''name'' else ret (VStr ''N/A'')) (\<lambda>v.
      bind (fmt E v []) (\<lambda>t.
      say (''   - Highest rated genre: '' @ t))))))))
    else ret ())"

definition model_insights :: "'w env \<Rightarrow> val \<Rightarrow> (unit, 'w) prog" where
  "model_insights E model_results =
    bind (say (nl @ ''4. MODEL PERFORMANCE:'')) (\<lambda>_.
    bind (attr E model_results ''iloc'') (\<lambda>iloc.
    bind (item E iloc (VInt 0)) (\<lambda>best_model.
    bind (item_fmt E best_model ''Model'' []) (\<lambda>t.
    bind (say (''   - Best model: '' @ t)) (\<lambda>_.
    bind (item_fmt E best_model key_test_r2 ''.1%'') (\<lambda>t.
    bind (say (''   - Prediction accuracy (R'' @ [CHR 0xC2, CHR 0xB2] @ ''): '' @ t)) (\<lambda>_.
    bind (item_fmt E best_model ''Test RMSE'' ''.2f'') (\<lambda>t.
    say (''   - Average error (RMSE): '' @ plus_minus @ t @ '' points'')))))))))"

definition generate_insights :: "'w env \<Rightarrow> val \<Rightarrow> val \<Rightarrow> val \<Rightarrow> (unit, 'w) prog" where
  "generate_insights E df eda_report model_results =
    bind (data_insights E df) (\<lambda>_.
    bind (year_insights E eda_report) (\<lambda>_.
    bind (genre_insights E eda_report) (\<lambda>_.
    bind (model_insights E model_results) (\<lambda>_.
    says [nl @ ''5. RECOMMENDATIONS:'',
          ''   - Focus on factors that correlate with high ratings'',
          ''   - Consider ensemble methods for better predictions'',
          ''   - Collect more recent data for trend analysis'',
          ''   - Include additional features like budget, box office'']))))"

definition interactive_analysis :: "'w env \<Rightarrow> (val, 'w) prog" where
  "interactive_analysis E =
    bind (says [rule_of 60, ''INTERACTIVE MOVIE RATING ANALYSIS'', rule_of 60]) (\<lambda>_.
    bind (load_and_explore_data E) (\<lambda>df.
    if df = VNone then ret VNone
    else
    bind (clean_and_preprocess E df) (\<lambda>df_clean.
    bind (perform_eda E df_clean) (\<lambda>eda_report.
    bind (build_and_evaluate_models E df_clean) (\<lambda>(predictor, model_results, importance).
    bind (generate_insights E df_clean eda_report model_results) (\<lambda>_.
    ret (VDict [(''data'', df_clean), (''eda_report'', eda_report),
                (''model_results'', model_results), (''predictor'', predictor),
                (''feature_importance'', importance)])))))))"

definition jupyter_epilogue :: "string list" where
  "jupyter_epilogue =
    [nl @ rule_of 60, ''ANALYSIS COMPLETE!'', rule_of 60,
     nl @ ''You can now:'',
     ''1. Examine the results dictionary for detailed outputs'',
     ''2. Use the trained models for predictions'',
     ''3. Explore additional visualizations'',
     ''4. Extend the analysis with new features'']"

text \<open>
  The module \<^verbatim>\<open>jupyter_analysis.py\<close> as a whole. After the imports and the warnings
  filter come the three plotting set-up statements of lines 20 to 22.
\<close>

definition jupyter_analysis_py :: "bool \<Rightarrow> 'w env \<Rightarrow> (val option, 'w) prog" where
  "jupyter_analysis_py as_script E =
    bind (import_block E) (\<lambda>_.
    bind (call E (VGlobal ''warnings'') ''filterwarnings'' [VStr ''ignore'']) (\<lambda>_.
    bind (attr E (VGlobal ''plt'') ''style'') (\<lambda>style.
    bind (call E style ''use'' [VStr ''seaborn-v0_8'']) (\<lambda>_.
    bind (call E (VGlobal ''sns'') ''set_palette'' [VStr ''husl'']) (\<lambda>_.
    bind (attr E (VGlobal ''plt'') ''rcParams'') (\<lambda>rc.
    bind (ext_val E (SetItem rc (VStr ''figure.figsize'') (VTuple [VInt 12, VInt 8]))) (\<lambda>_.
    if as_script then
      bind (interactive_analysis E) (\<lambda>results.
      bind (says jupyter_epilogue) (\<lambda>_. ret (Some results)))
    else ret None)))))))"

section \<open>Observations on a run\<close>

text \<open>
  The six stages of the pipeline. An event belongs to a stage by the collaborator it
  addresses: the class that is instantiated, or the method that is called (each method
  name below belongs to one class only). The reporting stage consists of prints and of
  reads of values that earlier stages produced; it is recognised by the heading it
  prints first (\<^verbatim>\<open>FINAL ANALYSIS REPORT\<close> in \<^verbatim>\<open>main\<close>,
  \<^verbatim>\<open>KEY INSIGHTS AND RECOMMENDATIONS\<close> in \<^verbatim>\<open>generate_insights\<close>).
\<close>

datatype stage = Load | Clean | Explore | Engineer | Model | Report

definition class_stage :: "string \<Rightarrow> stage option" where
  "class_stage c =
    (if c = ''DataLoader'' then Some Load
     else if c = ''DataCleaner'' then Some Clean
     else if c = ''EDAAnalyzer'' then Some Explore
     else if c = ''FeatureEngineer'' then Some Engineer
     else if c = ''MovieRatingPredictor'' then Some Model
     else None)"

definition method_stage :: "string \<Rightarrow> stage option" where
  "method_stage m =
    (if m \<in> set [''load_data'', ''get_data_info'', ''get_basic_stats''] then Some Load
     else if m \<in> set [''clean_data'', ''get_cleaned_summary''] then Some Clean
     else if m \<in> set [''generate_comprehensive_report''] then Some Explore
     else if m \<in> set [''create_features'', ''prepare_for_ml''] then Some Engineer
     else if m \<in> set [''train_models'', ''evaluate_models'', ''plot_model_comparison'',
                       ''plot_predictions'', ''get_feature_importance'',
                       ''hyperparameter_tuning'']
          then Some Model
     else None)"

definition report_heading :: "string \<Rightarrow> bool" where
  "report_heading l \<longleftrightarrow> l = ''FINAL ANALYSIS REPORT'' \<or> l = ''KEY INSIGHTS AND RECOMMENDATIONS''"

definition stage_of :: "event \<Rightarrow> stage option" where
  "stage_of ev =
    (case ev of
       Print l \<Rightarrow> if report_heading l then Some Report else None
     | Ext (CallFn (VGlobal c) args kw) r \<Rightarrow> class_stage c
     | Ext (CallMethod recv m args kw) r \<Rightarrow> method_stage m
     | _ \<Rightarrow> None)"

text \<open>The stages of a run in the order they are entered: repetitions of one stage collapse.\<close>

definition stages :: "event list \<Rightarrow> stage list" where
  "stages evs = remdups_adj (List.map_filter stage_of evs)"




section \<open>Reasoning about runs\<close>

text \<open>
  \<open>outs step p w a Q\<close>: run \<open>p\<close> from \<open>w\<close>, fold the events of the run into \<open>a\<close> with
  \<open>step\<close>, and judge how the run ended together with what the fold collected.
\<close>

definition outs :: "('b \<Rightarrow> event \<Rightarrow> 'b) \<Rightarrow> ('a, 'w) prog \<Rightarrow> 'w \<Rightarrow> 'b \<Rightarrow> ((exn + 'a) \<Rightarrow> 'b \<Rightarrow> bool) \<Rightarrow> bool" where
  "outs step p w a Q = (case p w of (r, w', evs) \<Rightarrow> Q r (foldl step a evs))"

text \<open>Folds that collect the selected events, and two folds side by side.\<close>

definition snoc_some :: "(event \<Rightarrow> 'b option) \<Rightarrow> 'b list \<Rightarrow> event \<Rightarrow> 'b list" where
  "snoc_some g acc ev = (case g ev of None \<Rightarrow> acc | Some y \<Rightarrow> acc @ [y])"

definition both :: "('a \<Rightarrow> event \<Rightarrow> 'a) \<Rightarrow> ('b \<Rightarrow> event \<Rightarrow> 'b) \<Rightarrow> 'a \<times> 'b \<Rightarrow> event \<Rightarrow> 'a \<times> 'b" where
  "both f g = (\<lambda>(a, b) ev. (f a ev, g b ev))"

text \<open>The operations of a run that raised, with their exceptions.\<close>

definition failure_of :: "event \<Rightarrow> (extop \<times> exn) option" where
  "failure_of ev = (case ev of Ext opn (Inl e) \<Rightarrow> Some (opn, e) | _ \<Rightarrow> None)"

definition failures :: "event list \<Rightarrow> (extop \<times> exn) list" where
  "failures evs = List.map_filter failure_of evs"

text \<open>
  A program lets exceptions through when, in each of its runs, either no operation raised,
  or exactly one did: the last one of the run, whose exception is how the run ended.
\<close>

definition propagates :: "('a, 'w) prog \<Rightarrow> bool" where
  "propagates p \<longleftrightarrow>
     (\<forall>w. case p w of (r, w', evs) \<Rightarrow>
        failures evs = [] \<or>
        (\<exists>pre opn e. evs = pre @ [Ext opn (Inl e)] \<and> failures pre = [] \<and> r = Inl e))"

text \<open>
  The loader came back empty-handed: a call of \<^verbatim>\<open>load_data\<close> that returned \<^verbatim>\<open>None\<close>.
  \<open>after_null_load\<close> is what a run did after the first such call, if there was one.
\<close>

definition null_load :: "event \<Rightarrow> bool" where
  "null_load ev =
     (case ev of Ext (CallMethod recv m args kw) r \<Rightarrow> m = ''load_data'' \<and> r = Inr VNone
               | _ \<Rightarrow> False)"

definition after_null_load :: "event list \<Rightarrow> event list option" where
  "after_null_load evs =
     (case dropWhile (\<lambda>ev. \<not> null_load ev) evs of [] \<Rightarrow> None | ev # rest \<Rightarrow> Some rest)"

text \<open>The same as a fold over the events.\<close>

definition watch_null :: "event list option \<Rightarrow> event \<Rightarrow> event list option" where
  "watch_null st ev =
     (case st of None \<Rightarrow> if null_load ev then Some [] else None
               | Some acc \<Rightarrow> Some (acc @ [ev]))"

section \<open>Observations on the modeling calls and the final report\<close>

text \<open>
  The calls of a run that evaluate or tune the models, in order: an evaluation with the
  table it returned, a tuning with its arguments.
\<close>

datatype model_item = Evaluated val | Tuned "val list"

definition tuning_view :: "event \<Rightarrow> model_item option" where
  "tuning_view ev =
     (case ev of
        Ext (CallMethod recv m args kw) (Inr v) \<Rightarrow>
          if m = ''evaluate_models'' then Some (Evaluated v)
          else if m = ''hyperparameter_tuning'' then Some (Tuned args)
          else None
      | _ \<Rightarrow> None)"

text \<open>
  Where a printed metric comes from. The report of main.py (lines 98 to 113) reads
  \<^verbatim>\<open>final_results.iloc[0]\<close> and prints fields of that row through f-strings. The monitor
  follows the data: \<open>Table t il\<close> after \<^verbatim>\<open>t.iloc\<close> gave \<open>il\<close>; \<open>BestRow t row\<close> is recorded when
  \<open>il[0]\<close> gives \<open>row\<close> next; \<open>Read c col x\<close> after \<^verbatim>\<open>c[col]\<close> gave \<open>x\<close> for a metric column;
  \<open>Shown c col spec s\<close> when that same \<open>x\<close> is formatted next, with \<open>spec\<close>, to the text \<open>s\<close>;
  and \<open>MetricLine c col spec s l\<close> is recorded when the next event prints the line \<open>l\<close>.
\<close>

definition is_metric :: "string \<Rightarrow> bool" where
  "is_metric col \<longleftrightarrow> col \<in> set [''Model'', key_test_r2, ''Test RMSE'', ''Test MAE'']"

datatype watching = Idle | Table val val | Read val string val | Shown val string string string

datatype report_fact = BestRow val val | MetricLine val string string string string

definition next_watch :: "watching \<Rightarrow> event \<Rightarrow> watching" where
  "next_watch p ev =
     (case ev of
        Ext (GetAttr table a) (Inr il) \<Rightarrow> if a = ''iloc'' then Table table il else Idle
      | Ext (GetItem c k) (Inr x) \<Rightarrow>
          (case k of VStr col \<Rightarrow> if is_metric col then Read c col x else Idle | _ \<Rightarrow> Idle)
      | Ext (Format y spec) (Inr t) \<Rightarrow>
          (case p of
             Read row col x \<Rightarrow>
               (case t of VStr s \<Rightarrow> if y = x then Shown row col spec s else Idle | _ \<Rightarrow> Idle)
           | _ \<Rightarrow> Idle)
      | _ \<Rightarrow> Idle)"

definition next_facts :: "watching \<Rightarrow> report_fact list \<Rightarrow> event \<Rightarrow> report_fact list" where
  "next_facts p acc ev =
     (case ev of
        Ext (GetItem c k) (Inr row) \<Rightarrow>
          (case p of Table table il \<Rightarrow> if c = il \<and> k = VInt 0 then acc @ [BestRow table row] else acc
                   | _ \<Rightarrow> acc)
      | Print l \<Rightarrow>
          (case p of Shown row col spec t \<Rightarrow> acc @ [MetricLine row col spec t l] | _ \<Rightarrow> acc)
      | _ \<Rightarrow> acc)"

definition watch_report :: "watching \<times> report_fact list \<Rightarrow> event \<Rightarrow> watching \<times> report_fact list" where
  "watch_report st ev = (next_watch (fst st) ev, next_facts (fst st) (snd st) ev)"

definition report_facts :: "event list \<Rightarrow> report_fact list" where
  "report_facts evs = snd (foldl watch_report (Idle, []) evs)"

text \<open>
  The events around the "best year" insight (main.py lines 105 to 108): the test
  \<^verbatim>\<open>'yearly_ratings' in c\<close> with its answer, the read \<^verbatim>\<open>c['yearly_ratings']\<close> with its value, and
  the printed insight itself.
\<close>

datatype yearly_item = Asked val bool | Got val val | BestYearLine

definition yearly_view :: "event \<Rightarrow> yearly_item option" where
  "yearly_view ev =
     (case ev of
        Ext (Contains k c) (Inr b) \<Rightarrow>
          if k = VStr ''yearly_ratings'' then Some (Asked c (b = VBool True)) else None
      | Ext (GetItem c k) (Inr v) \<Rightarrow>
          if k = VStr ''yearly_ratings'' then Some (Got c v) else None
      | Print l \<Rightarrow> if prefix ''- Best year for movies: '' l then Some BestYearLine else None
      | _ \<Rightarrow> None)"

text \<open>
  The pipeline calls of a run: every construction of a stage class and every call of a stage
  method, by name and with its keyword arguments.
\<close>

definition pipeline_call :: "event \<Rightarrow> (string \<times> (string \<times> val) list) option" where
  "pipeline_call ev =
     (case ev of
        Ext (CallFn (VGlobal c) args kw) r \<Rightarrow> if class_stage c = None then None else Some (c, kw)
      | Ext (CallMethod recv m args kw) r \<Rightarrow> if method_stage m = None then None else Some (m, kw)
      | _ \<Rightarrow> None)"

definition pipeline_calls :: "event list \<Rightarrow> (string \<times> (string \<times> val) list) list" where
  "pipeline_calls evs = List.map_filter pipeline_call evs"

text \<open>The \<^verbatim>\<open>'model_results'\<close> entry of the dictionary a pipeline function returns.\<close>

definition results_table :: "exn + val \<Rightarrow> val option" where
  "results_table r = (case r of Inr (VDict d) \<Rightarrow> map_of d ''model_results'' | _ \<Rightarrow> None)"

text \<open>
  The pipeline calls of \<^verbatim>\<open>main\<close> (main.py lines 27 to 85) and of \<^verbatim>\<open>interactive_analysis\<close>
  (jupyter\_analysis.py lines 29 to 85), as the source lists them.
\<close>

definition main_calls :: "(string \<times> (string \<times> val) list) list" where
  "main_calls =
    [(''DataLoader'', []), (''load_data'', []), (''get_data_info'', []),
     (''get_basic_stats'', []),
     (''DataCleaner'', []), (''clean_data'', []), (''get_cleaned_summary'', []),
     (''EDAAnalyzer'', []), (''generate_comprehensive_report'', []),
     (''FeatureEngineer'', []), (''create_features'', []),
     (''prepare_for_ml'', [(''target_col'', VStr ''rating'')]),
     (''MovieRatingPredictor'', []), (''train_models'', []), (''evaluate_models'', []),
     (''plot_model_comparison'', []), (''plot_predictions'', []),
     (''get_feature_importance'', []),
     (''hyperparameter_tuning'', []), (''hyperparameter_tuning'', []),
     (''evaluate_models'', [])]"

definition interactive_calls :: "(string \<times> (string \<times> val) list) list" where
  "interactive_calls =
    [(''DataLoader'', []), (''load_data'', []), (''get_data_info'', []),
     (''DataCleaner'', []), (''clean_data'', []),
     (''EDAAnalyzer'', []), (''generate_comprehensive_report'', []),
     (''FeatureEngineer'', []), (''create_features'', []),
     (''prepare_for_ml'', []),
     (''MovieRatingPredictor'', []), (''train_models'', []), (''evaluate_models'', []),
     (''plot_model_comparison'', []), (''plot_predictions'', []),
     (''get_feature_importance'', [])]"

section \<open>Observations on what a module does when it is imported\<close>

text \<open>
  The operations of a run that can change state outside the module: calls and item
  assignments. Imports and reads (attributes, items, lengths, formatting) are left out.
\<close>

definition module_effect :: "event \<Rightarrow> extop option" where
  "module_effect ev =
     (case ev of
        Ext (CallFn f args kw) r \<Rightarrow> Some (CallFn f args kw)
      | Ext (CallMethod recv m args kw) r \<Rightarrow> Some (CallMethod recv m args kw)
      | Ext (SetItem c k v) r \<Rightarrow> Some (SetItem c k v)
      | _ \<Rightarrow> None)"

definition module_effects :: "event list \<Rightarrow> extop list" where
  "module_effects evs = List.map_filter module_effect evs"

text \<open>The attribute reads of a run that returned: object, attribute name, value.\<close>

definition attr_read :: "event \<Rightarrow> (val \<times> string \<times> val) option" where
  "attr_read ev = (case ev of Ext (GetAttr v a) (Inr x) \<Rightarrow> Some (v, a, x) | _ \<Rightarrow> None)"

text \<open>\<^verbatim>\<open>warnings.filterwarnings('ignore')\<close>, line 17 of either file.\<close>

definition warnings_filter :: extop where
  "warnings_filter = CallMethod (VGlobal ''warnings'') ''filterwarnings'' [VStr ''ignore''] []"

section \<open>The interface of the scripts\<close>

text \<open>
  The names the two scripts use: the modules and classes they import, the methods they
  call and the attributes they read. \<open>script_methods\<close> has first the methods of the five
  stage classes, then those of values held in memory (pandas objects), then the three set-up
  calls at module level.
\<close>

definition script_modules :: "string list" where
  "script_modules = [''pandas'', ''numpy'', ''matplotlib.pyplot'', ''seaborn'', ''warnings'']"

definition stage_classes :: "(string \<times> string) list" where
  "stage_classes =
    [(''src.data_loader'', ''DataLoader''), (''src.data_cleaner'', ''DataCleaner''),
     (''src.eda_analyzer'', ''EDAAnalyzer''), (''src.feature_engineer'', ''FeatureEngineer''),
     (''src.ml_models'', ''MovieRatingPredictor'')]"

definition script_methods :: "string list" where
  "script_methods =
    [''get_data_info'', ''get_basic_stats'', ''clean_data'', ''get_cleaned_summary'',
     ''generate_comprehensive_report'', ''create_features'', ''prepare_for_ml'',
     ''train_models'', ''evaluate_models'', ''plot_model_comparison'', ''plot_predictions'',
     ''get_feature_importance'', ''hyperparameter_tuning'',
     ''mean'', ''std'', ''min'', ''max'', ''idxmax'',
     ''filterwarnings'', ''use'', ''set_palette'']"

definition script_attrs :: "string list" where
  "script_attrs = [''shape'', ''columns'', ''iloc'', ''loc'', ''name'', ''style'', ''rcParams'']"

text \<open>
  The operations within that interface. A \<^verbatim>\<open>DataLoader\<close> is constructed from the one fixed
  path and nothing else, and \<^verbatim>\<open>load_data\<close> is called without arguments: no other path
  reaches the loader. The only other callables are the four remaining stage classes; the
  only item assignment is the figure size of line 22 of jupyter\_analysis.py. No module
  such as \<^verbatim>\<open>sys\<close>, \<^verbatim>\<open>os\<close> or \<^verbatim>\<open>argparse\<close>, no \<^verbatim>\<open>open\<close> and no attribute
  \<^verbatim>\<open>argv\<close> is among these names.
\<close>

definition script_op :: "extop \<Rightarrow> bool" where
  "script_op opn =
     (case opn of
        Import m \<Rightarrow> m \<in> set script_modules
      | ImportFrom m c \<Rightarrow> (m, c) \<in> set stage_classes
      | CallFn f args kw \<Rightarrow>
          if f = VGlobal ''DataLoader'' then args = [VStr csv_path] \<and> kw = []
          else f \<in> set (map (\<lambda>mc. VGlobal (snd mc)) stage_classes)
      | CallMethod recv m args kw \<Rightarrow>
          if m = ''load_data'' then args = [] \<and> kw = [] else m \<in> set script_methods
      | GetAttr v a \<Rightarrow> a \<in> set script_attrs
      | SetItem c k v \<Rightarrow> k = VStr ''figure.figsize''
      | _ \<Rightarrow> True)"

text \<open>An event of a script: a line printed to the console, or an operation as above.\<close>

definition script_event :: "event \<Rightarrow> bool" where
  "script_event ev = (case ev of Print l \<Rightarrow> True | Ext opn r \<Rightarrow> script_op opn)"

text \<open>A program all of whose events, in every run, are of that kind.\<close>

definition confined :: "('a, 'w) prog \<Rightarrow> bool" where
  "confined p \<longleftrightarrow> (\<forall>w. list_all script_event (events (p w)))"



section \<open>A small environment to run the scripts in\<close>

text \<open>
  Its state counts the hyperparameter tunings performed so far, and an evaluation
  returns a table that depends on that count. \<open>csv_ok\<close> says whether the loader finds its
  file (it returns \<^verbatim>\<open>None\<close> otherwise); \<open>bad\<close> names a method that raises.
\<close>

definition demo_env :: "bool \<Rightarrow> string \<Rightarrow> nat env" where
  "demo_env csv_ok bad =
    \<lparr>env_val = (\<lambda>opn w. case opn of
        CallMethod recv m args kw \<Rightarrow>
          if m = bad then (Inl (Exn ''ValueError''), w)
          else if m = ''load_data'' then (Inr (if csv_ok then VObj 1 else VNone), w)
          else if m = ''prepare_for_ml'' then (Inr (VTuple [VObj 2, VObj 3]), w)
          else if m = ''hyperparameter_tuning'' then (Inr VNone, Suc w)
          else if m = ''evaluate_models'' then (Inr (VObj (100 + w)), w)
          else (Inr (VObj 0), w)
      | CallFn f args kw \<Rightarrow> (Inr (VObj 10), w)
      | _ \<Rightarrow> (Inr (VObj 0), w)),
     env_bool = (\<lambda>opn w. (Inr True, w)),
     env_int = (\<lambda>opn w. (Inr 1, w)),
     env_str = (\<lambda>opn w. (Inr ''?'', w)),
     env_list = (\<lambda>opn w. case opn of
        Iterate (VTuple vs) \<Rightarrow> (Inr vs, w)
      | _ \<Rightarrow> (Inl (Exn ''TypeError''), w))\<rparr>"

section \<open>The evaluation table of the predictor\<close>

text \<open>
  One row of the table that \<^verbatim>\<open>evaluate_models\<close> returns: the columns the scripts read.
  The scores are Python floats; they are taken as real numbers here (no NaN).
\<close>

record model_score =
  model_name :: string
  score_test_r2 :: real
  score_test_rmse :: real
  score_test_mae :: real

text \<open>
  Modelled from the spec: \<^verbatim>\<open>MovieRatingPredictor.evaluate_models\<close> lives in
  \<^verbatim>\<open>src/ml_models.py\<close>, which is not among the sources. The spec says of the modeling
  stage that it "fits several regressors, scores them, tunes hyperparameters, ranks by
  test R2": the table holds the scored models, the best test R2 first.
\<close>

definition evaluate_models :: "model_score list \<Rightarrow> model_score list" where
  "evaluate_models scores = sort_key (\<lambda>m. - score_test_r2 m) scores"

text \<open>
  \<^verbatim>\<open>results.iloc[0]\<close>, the way both scripts pick the best model (main.py line 99,
  jupyter\_analysis.py line 117); on an empty table it raises \<^verbatim>\<open>IndexError\<close>.
\<close>

definition best_model_row :: "model_score list \<Rightarrow> exn + model_score" where
  "best_model_row table = (case table of [] \<Rightarrow> Inl (Exn ''IndexError'') | row # rest \<Rightarrow> Inr row)"

definition demo_scores :: "model_score list" where
  "demo_scores =
    [\<lparr>model_name = ''Linear Regression'', score_test_r2 = 31 / 100,
      score_test_rmse = 12 / 10, score_test_mae = 9 / 10\<rparr>,
     \<lparr>model_name = ''Random Forest'', score_test_r2 = 52 / 100,
      score_test_rmse = 1, score_test_mae = 7 / 10\<rparr>,
     \<lparr>model_name = ''Gradient Boosting'', score_test_r2 = 47 / 100,
      score_test_rmse = 11 / 10, score_test_mae = 8 / 10\<rparr>]"

section \<open>The calculus of \<open>outs\<close>\<close>

lemma outs_run: "outs step p w a Q \<Longrightarrow> Q (outcome (p w)) (foldl step a (events (p w)))"
  by (cases "p w") (simp add: outs_def outcome_def events_def)

lemma outs_ret: "outs step (ret x) w a Q = Q (Inr x) a"
  by (simp add: outs_def ret_def)

lemma outs_raise: "outs step (raise e) w a Q = Q (Inl e) a"
  by (simp add: outs_def raise_def)

lemma outs_say: "outs step (say l) w a Q = Q (Inr ()) (step a (Print l))"
  by (simp add: outs_def say_def)

lemma outs_bind:
  "outs step (bind m k) w a Q =
     (case m w of (r, w', evs) \<Rightarrow>
        (case r of Inl e \<Rightarrow> Q (Inl e) (foldl step a evs)
                 | Inr x \<Rightarrow> outs step (k x) w' (foldl step a evs) Q))"
  by (simp add: outs_def bind_def split: prod.splits sum.splits)

lemma outs_bind_say:
  "outs step (bind (say l) k) w a Q = outs step (k ()) w (step a (Print l)) Q"
  by (simp add: outs_bind say_def)

lemma outs_bind_ret: "outs step (bind (ret x) k) w a Q = outs step (k x) w a Q"
  by (simp add: outs_bind ret_def)

lemma outs_bind_raise: "outs step (bind (raise e) k) w a Q = Q (Inl e) a"
  by (simp add: outs_bind raise_def)

lemma outs_bind_bind:
  "outs step (bind (bind m f) k) w a Q = outs step (bind m (\<lambda>x. bind (f x) k)) w a Q"
  by (simp add: outs_def bind_def split: prod.splits sum.splits)

lemma outs_bind_if:
  "outs step (bind (if c then A else B) k) w a Q =
     ((c \<longrightarrow> outs step (bind A k) w a Q) \<and> (\<not> c \<longrightarrow> outs step (bind B k) w a Q))"
  by (cases c) simp_all

lemma outs_if:
  "outs step (if c then A else B) w a Q =
     ((c \<longrightarrow> outs step A w a Q) \<and> (\<not> c \<longrightarrow> outs step B w a Q))"
  by (cases c) simp_all

lemma outs_ext:
  "outs step (ext f enc opn) w a Q =
     ((\<forall>e w'. f opn w = (Inl e, w') \<longrightarrow> Q (Inl e) (step a (Ext opn (Inl e)))) \<and>
      (\<forall>x w'. f opn w = (Inr x, w') \<longrightarrow> Q (Inr x) (step a (Ext opn (Inr (enc x))))))"
  by (auto simp add: outs_def ext_def split: prod.splits sum.splits)

lemma outs_bind_ext:
  "outs step (bind (ext f enc opn) k) w a Q =
     ((\<forall>e w'. f opn w = (Inl e, w') \<longrightarrow> Q (Inl e) (step a (Ext opn (Inl e)))) \<and>
      (\<forall>x w'. f opn w = (Inr x, w') \<longrightarrow>
         outs step (k x) w' (step a (Ext opn (Inr (enc x)))) Q))"
  by (auto simp add: outs_bind ext_def split: prod.splits sum.splits)

lemma unpack2_run:
  "unpack2 E v w =
     (case env_list E (Iterate v) w of
        (Inl e, w') \<Rightarrow> (Inl e, w', [Ext (Iterate v) (Inl e)])
      | (Inr vs, w') \<Rightarrow>
          (if \<exists>x y. vs = [x, y] then Inr (hd vs, hd (tl vs)) else Inl (Exn ''ValueError''),
           w', [Ext (Iterate v) (Inr (VTuple vs))]))"
  by (auto simp add: unpack2_def ext_list_def ext_def bind_def ret_def raise_def
        split: prod.splits sum.splits list.splits)

lemma outs_unpack2:
  "outs step (unpack2 E v) w a Q =
     ((\<forall>e w'. env_list E (Iterate v) w = (Inl e, w') \<longrightarrow>
          Q (Inl e) (step a (Ext (Iterate v) (Inl e)))) \<and>
      (\<forall>vs w'. env_list E (Iterate v) w = (Inr vs, w') \<longrightarrow>
          (\<forall>x y. vs = [x, y] \<longrightarrow>
             Q (Inr (x, y)) (step a (Ext (Iterate v) (Inr (VTuple vs))))) \<and>
          ((\<forall>x y. vs \<noteq> [x, y]) \<longrightarrow>
             Q (Inl (Exn ''ValueError'')) (step a (Ext (Iterate v) (Inr (VTuple vs)))))))"
  by (auto simp add: outs_def unpack2_run split: prod.splits sum.splits)

lemma outs_bind_unpack2:
  "outs step (bind (unpack2 E v) k) w a Q =
     ((\<forall>e w'. env_list E (Iterate v) w = (Inl e, w') \<longrightarrow>
          Q (Inl e) (step a (Ext (Iterate v) (Inl e)))) \<and>
      (\<forall>vs w'. env_list E (Iterate v) w = (Inr vs, w') \<longrightarrow>
          (\<forall>x y. vs = [x, y] \<longrightarrow>
             outs step (k (x, y)) w' (step a (Ext (Iterate v) (Inr (VTuple vs)))) Q) \<and>
          ((\<forall>x y. vs \<noteq> [x, y]) \<longrightarrow>
             Q (Inl (Exn ''ValueError'')) (step a (Ext (Iterate v) (Inr (VTuple vs)))))))"
  by (auto simp add: outs_bind unpack2_run split: prod.splits sum.splits)

text \<open>
  While a run is unfolded, only the statement in front and the collected value are
  simplified; what follows the statement is left alone until its turn comes.
\<close>

lemma outs_weak_cong:
  "p = p' \<Longrightarrow> w = w' \<Longrightarrow> a = a' \<Longrightarrow> outs step p w a Q = outs step p' w' a' Q"
  by simp

lemma bind_weak_cong: "m = m' \<Longrightarrow> bind m k = bind m' k"
  by simp

lemmas prim_defs = ext_val_def ext_bool_def ext_int_def ext_str_def
  new_def call_def call_kw_def attr_def item_def fmt_def item_fmt_def
  has_yearly_ratings_def has_genre_analysis_def

lemmas outs_simps = outs_ret outs_raise outs_say outs_ext outs_bind_say outs_bind_ret
  outs_bind_raise outs_bind_bind outs_bind_if outs_if outs_bind_ext
  outs_unpack2 outs_bind_unpack2

lemmas main_defs = main_def step2_clean_data_def step3_exploratory_data_analysis_def
  step4_feature_engineering_def step5_machine_learning_models_def step6_dataset_summary_def
  step6_best_model_performance_def best_year_insight_def step6_key_insights_def

lemmas interactive_defs = interactive_analysis_def load_and_explore_data_def
  clean_and_preprocess_def perform_eda_def build_and_evaluate_models_def
  generate_insights_def data_insights_def best_year_lines_def
  most_productive_year_line_def year_insights_def genre_insights_def model_insights_def

lemma foldl_snoc_some: "foldl (snoc_some g) acc evs = acc @ List.map_filter g evs"
  by (induction evs arbitrary: acc)
     (auto simp: snoc_some_def split: option.splits)

lemma foldl_both: "foldl (both f g) (a, b) evs = (foldl f a evs, foldl g b evs)"
  by (induction evs arbitrary: a b) (auto simp: both_def)

lemma rule_of_not_heading:
  "rule_of n \<noteq> ''FINAL ANALYSIS REPORT''"
  "rule_of n \<noteq> ''KEY INSIGHTS AND RECOMMENDATIONS''"
  by (cases n; simp add: rule_of_def)+

lemma outs_bind_mono:
  assumes m: "outs step m w a P"
    and fail: "\<And>e b. P (Inl e) b \<Longrightarrow> Q (Inl e) b"
    and cont: "\<And>x b w'. P (Inr x) b \<Longrightarrow> outs step (k x) w' b Q"
  shows "outs step (bind m k) w a Q"
proof -
  obtain r w' evs where run: "m w = (r, w', evs)"
    by (cases "m w")
  with m have P: "P r (foldl step a evs)"
    by (simp add: outs_def)
  show ?thesis
  proof (cases r)
    case (Inl e)
    with run fail P show ?thesis
      by (simp add: outs_def bind_def)
  next
    case (Inr x)
    with P cont [of x "foldl step a evs" w'] run show ?thesis
      by (simp add: outs_def bind_def split: prod.splits)
  qed
qed

section \<open>The demo runs\<close>

lemma demo_main_py_ok:
  "outcome (main_py True (demo_env True []) 0) =
     Inr (Some (VDict [(''cleaned_data'', VObj 0), (''features'', VObj 2), (''target'', VObj 3),
        (''model_results'', VObj 102), (''eda_report'', VObj 0), (''predictor'', VObj 10)]))"
  by code_simp

lemma demo_jupyter_py_ok:
  "outcome (jupyter_analysis_py True (demo_env True []) 0) =
     Inr (Some (VDict [(''data'', VObj 0), (''eda_report'', VObj 0),
        (''model_results'', VObj 100), (''predictor'', VObj 10),
        (''feature_importance'', VObj 0)]))"
  by code_simp

section \<open>The stages of a successful run\<close>

lemmas stage_eval = snoc_some_def stage_of_def class_stage_def method_stage_def
  rule_of_not_heading report_heading_def nl_def









section \<open>The ranking of the evaluation table\<close>

lemma evaluate_models_sorted:
  "sorted_wrt (\<lambda>a b. score_test_r2 b \<le> score_test_r2 a) (evaluate_models scores)"
proof -
  have "sorted (map (\<lambda>m. - score_test_r2 m) (evaluate_models scores))"
    by (simp add: evaluate_models_def)
  then show ?thesis
    by (simp add: sorted_map)
qed

lemma evaluate_models_mset: "mset (evaluate_models scores) = mset scores"
  by (simp add: evaluate_models_def)

text \<open>
  Claim C2. The table the modeling stage produces is ranked by test R2, highest first: it
  holds the same rows as were scored, every row scores at least as high as the rows
  below it, and row 0, which both scripts take for the best model, has the highest test
  R2 of all.
\<close>

theorem results_ranked_by_test_r2:
  "sorted_wrt (\<lambda>a b. score_test_r2 b \<le> score_test_r2 a) (evaluate_models scores) \<and>
   mset (evaluate_models scores) = mset scores \<and>
   (scores \<noteq> [] \<longrightarrow>
      (\<exists>row. best_model_row (evaluate_models scores) = Inr row \<and> row \<in> set scores \<and>
         (\<forall>m \<in> set scores. score_test_r2 m \<le> score_test_r2 row)))"
proof (intro conjI impI)
  show "sorted_wrt (\<lambda>a b. score_test_r2 b \<le> score_test_r2 a) (evaluate_models scores)"
    by (rule evaluate_models_sorted)
  show "mset (evaluate_models scores) = mset scores"
    by (rule evaluate_models_mset)
next
  assume nonempty: "scores \<noteq> []"
  have same: "set (evaluate_models scores) = set scores"
    using evaluate_models_mset [of scores] by (metis set_mset_mset)
  with nonempty obtain row rest where table: "evaluate_models scores = row # rest"
    by (cases "evaluate_models scores") auto
  have best: "best_model_row (evaluate_models scores) = Inr row"
    by (simp add: table best_model_row_def)
  have mem: "row \<in> set scores"
    using same table by auto
  have top: "\<forall>m \<in> set scores. score_test_r2 m \<le> score_test_r2 row"
  proof
    fix m
    assume "m \<in> set scores"
    then have "m = row \<or> m \<in> set rest"
      using same table by auto
    then show "score_test_r2 m \<le> score_test_r2 row"
      using evaluate_models_sorted [of scores] by (auto simp add: table)
  qed
  from best mem top
  show "\<exists>row. best_model_row (evaluate_models scores) = Inr row \<and> row \<in> set scores \<and>
          (\<forall>m \<in> set scores. score_test_r2 m \<le> score_test_r2 row)"
    by blast
qed

theorem results_ranked_by_test_r2_witness:
  "demo_scores \<noteq> [] \<and>
   (\<exists>row. best_model_row (evaluate_models demo_scores) = Inr row \<and> row \<in> set demo_scores \<and>
      (\<forall>m \<in> set demo_scores. score_test_r2 m \<le> score_test_r2 row))"
proof -
  have nonempty: "demo_scores \<noteq> []"
    by (simp add: demo_scores_def)
  with results_ranked_by_test_r2 [of demo_scores] show ?thesis
    by simp
qed

section \<open>Exceptions are not caught\<close>

named_theorems propagates_intros

lemma failures_append: "failures (xs @ ys) = failures xs @ failures ys"
  by (simp add: failures_def List.map_filter_def)

lemma failures_simps:
  "failures [] = []"
  "failures (Print l # evs) = failures evs"
  "failures (Ext opn (Inr v) # evs) = failures evs"
  "failures (Ext opn (Inl e) # evs) = (opn, e) # failures evs"
  by (simp_all add: failures_def failure_of_def List.map_filter_simps)

lemma propagates_ret [propagates_intros]: "propagates (ret x)"
  by (simp add: propagates_def ret_def failures_simps)

lemma propagates_raise [propagates_intros]: "propagates (raise e)"
  by (simp add: propagates_def raise_def failures_simps)

lemma propagates_say [propagates_intros]: "propagates (say l)"
  by (simp add: propagates_def say_def failures_simps)

lemma propagates_ext [propagates_intros]: "propagates (ext f enc opn)"
  by (auto simp add: propagates_def ext_def failures_simps split: prod.splits sum.splits)

lemma propagates_bind [propagates_intros]:
  assumes m: "propagates m" and k: "\<And>x. propagates (k x)"
  shows "propagates (bind m k)"
  unfolding propagates_def
proof
  fix w
  obtain r w1 evs1 where run1: "m w = (r, w1, evs1)"
    by (cases "m w")
  from m [unfolded propagates_def, rule_format, of w] run1 have first:
    "failures evs1 = [] \<or>
     (\<exists>pre opn e. evs1 = pre @ [Ext opn (Inl e)] \<and> failures pre = [] \<and> r = Inl e)"
    by simp
  show "case bind m k w of (r, w', evs) \<Rightarrow>
          failures evs = [] \<or>
          (\<exists>pre opn e. evs = pre @ [Ext opn (Inl e)] \<and> failures pre = [] \<and> r = Inl e)"
  proof (cases r)
    case (Inl e)
    with run1 first show ?thesis
      by (simp add: bind_def)
  next
    case (Inr x)
    obtain r2 w2 evs2 where run2: "k x w1 = (r2, w2, evs2)"
      by (cases "k x w1")
    from Inr first have quiet: "failures evs1 = []"
      by auto
    from k [of x, unfolded propagates_def, rule_format, of w1] run2 have second:
      "failures evs2 = [] \<or>
       (\<exists>pre opn e. evs2 = pre @ [Ext opn (Inl e)] \<and> failures pre = [] \<and> r2 = Inl e)"
      by simp
    then show ?thesis
    proof
      assume "failures evs2 = []"
      with quiet run1 run2 Inr show ?thesis
        by (simp add: bind_def failures_append)
    next
      assume "\<exists>pre opn e. evs2 = pre @ [Ext opn (Inl e)] \<and> failures pre = [] \<and> r2 = Inl e"
      then obtain pre opn e where
        "evs2 = pre @ [Ext opn (Inl e)]" "failures pre = []" "r2 = Inl e"
        by blast
      with quiet have
        "evs1 @ evs2 = (evs1 @ pre) @ [Ext opn (Inl e)] \<and> failures (evs1 @ pre) = [] \<and> r2 = Inl e"
        by (simp add: failures_append)
      with run1 run2 Inr show ?thesis
        by (auto simp add: bind_def)
    qed
  qed
qed

lemma propagates_if [propagates_intros]:
  "propagates A \<Longrightarrow> propagates B \<Longrightarrow> propagates (if c then A else B)"
  by simp

lemma propagates_case_prod [propagates_intros]:
  "(\<And>a b. propagates (f a b)) \<Longrightarrow> propagates (case_prod f p)"
  by (cases p) simp

lemma propagates_says [propagates_intros]: "propagates (says ls)"
  by (induction ls) (auto intro: propagates_intros)

lemma propagates_unpack2 [propagates_intros]: "propagates (unpack2 E v)"
  unfolding unpack2_def ext_list_def
  by (intro propagates_bind propagates_ext) (auto intro: propagates_intros split: list.splits)

lemmas call_defs = ext_val_def ext_bool_def ext_int_def ext_str_def ext_list_def
  new_def call_def call_kw_def attr_def item_def fmt_def item_fmt_def
  has_yearly_ratings_def has_genre_analysis_def

lemma propagates_main: "propagates (main E)"
  unfolding main_defs call_defs
  by (intro propagates_intros)

lemma propagates_interactive: "propagates (interactive_analysis E)"
  unfolding interactive_defs call_defs
  by (intro propagates_intros)

lemma propagates_main_py: "propagates (main_py s E)"
  unfolding main_py_def import_block_def call_defs
  by (intro propagates_intros propagates_main)

lemma propagates_jupyter_py: "propagates (jupyter_analysis_py s E)"
  unfolding jupyter_analysis_py_def import_block_def call_defs
  by (intro propagates_intros propagates_interactive)


lemma mem_failures: "(opn, e) \<in> set (failures evs) \<longleftrightarrow> Ext opn (Inl e) \<in> set evs"
proof (induction evs)
  case Nil
  show ?case by (simp add: failures_simps)
next
  case (Cons ev evs)
  show ?case
  proof (cases ev)
    case (Print l)
    with Cons show ?thesis by (simp add: failures_simps)
  next
    case (Ext opn' r)
    with Cons show ?thesis by (cases r) (auto simp add: failures_simps)
  qed
qed

lemma propagates_failure:
  assumes p: "propagates p" and mem: "Ext opn (Inl e) \<in> set (events (p w))"
  shows "outcome (p w) = Inl e \<and>
         (\<exists>pre. events (p w) = pre @ [Ext opn (Inl e)] \<and> failures pre = [])"
proof -
  obtain r w' evs where run: "p w = (r, w', evs)"
    by (cases "p w")
  from mem run have in_evs: "Ext opn (Inl e) \<in> set evs"
    by (simp add: events_def)
  then have "failures evs \<noteq> []"
    using mem_failures [of opn e evs] by auto
  with p [unfolded propagates_def, rule_format, of w] run
  obtain pre opn' e' where shape: "evs = pre @ [Ext opn' (Inl e')]" "failures pre = []" "r = Inl e'"
    by auto
  from shape(2) have "Ext opn (Inl e) \<notin> set pre"
    using mem_failures [of opn e pre] by auto
  with in_evs shape(1) have "opn' = opn" "e' = e"
    by auto
  with shape run show ?thesis
    by (simp add: outcome_def events_def)
qed

lemma propagates_normal:
  assumes p: "propagates p" and ok: "outcome (p w) = Inr x"
  shows "failures (events (p w)) = []"
proof -
  obtain r w' evs where run: "p w = (r, w', evs)"
    by (cases "p w")
  with p [unfolded propagates_def, rule_format, of w] ok show ?thesis
    by (auto simp add: outcome_def events_def)
qed

text \<open>
  Claim C7. Neither entry script intercepts an error: whatever operation raises, in any
  stage, that exception is how the run of the script ends, the raising operation is the
  last thing the run did, and no operation before it had raised.
\<close>

theorem exceptions_propagate:
  "(Ext opn (Inl e) \<in> set (events (main_py s E w)) \<longrightarrow>
      outcome (main_py s E w) = Inl e \<and>
      (\<exists>pre. events (main_py s E w) = pre @ [Ext opn (Inl e)] \<and> failures pre = [])) \<and>
   (Ext opn' (Inl e') \<in> set (events (jupyter_analysis_py s' E w')) \<longrightarrow>
      outcome (jupyter_analysis_py s' E w') = Inl e' \<and>
      (\<exists>pre. events (jupyter_analysis_py s' E w') = pre @ [Ext opn' (Inl e')] \<and>
         failures pre = []))"
proof -
  have one: "Ext opn (Inl e) \<in> set (events (main_py s E w)) \<longrightarrow>
      outcome (main_py s E w) = Inl e \<and>
      (\<exists>pre. events (main_py s E w) = pre @ [Ext opn (Inl e)] \<and> failures pre = [])"
    using propagates_failure [OF propagates_main_py, of opn e s E w] by simp
  have other: "Ext opn' (Inl e') \<in> set (events (jupyter_analysis_py s' E w')) \<longrightarrow>
      outcome (jupyter_analysis_py s' E w') = Inl e' \<and>
      (\<exists>pre. events (jupyter_analysis_py s' E w') = pre @ [Ext opn' (Inl e')] \<and>
         failures pre = [])"
    using propagates_failure [OF propagates_jupyter_py, of opn' e' s' E w'] by simp
  from one other show ?thesis
    by (rule conjI)
qed

lemma demo_main_py_raises:
  "Ext (CallMethod (VObj 10) ''clean_data'' [] []) (Inl (Exn ''ValueError''))
     \<in> set (events (main_py True (demo_env True ''clean_data'') 0))"
  by code_simp

lemma demo_jupyter_py_raises:
  "Ext (CallMethod (VObj 10) ''clean_data'' [] []) (Inl (Exn ''ValueError''))
     \<in> set (events (jupyter_analysis_py True (demo_env True ''clean_data'') 0))"
  by code_simp

theorem exceptions_propagate_witness:
  "outcome (main_py True (demo_env True ''clean_data'') 0) = Inl (Exn ''ValueError'') \<and>
   outcome (jupyter_analysis_py True (demo_env True ''clean_data'') 0) = Inl (Exn ''ValueError'')"
  using exceptions_propagate [of "CallMethod (VObj 10) ''clean_data'' [] []" "Exn ''ValueError''"
      True "demo_env True ''clean_data''" 0
      "CallMethod (VObj 10) ''clean_data'' [] []" "Exn ''ValueError''" True 0]
    demo_main_py_raises demo_jupyter_py_raises
  by simp

section \<open>The failed load\<close>

lemma watch_null_simps:
  "watch_null None ev = (if null_load ev then Some [] else None)"
  "watch_null (Some acc) ev = Some (acc @ [ev])"
  by (simp_all add: watch_null_def)

lemma foldl_watch_null_Some: "foldl watch_null (Some acc) evs = Some (acc @ evs)"
  by (induction evs arbitrary: acc) (simp_all add: watch_null_simps)

lemma foldl_watch_null: "foldl watch_null None evs = after_null_load evs"
  by (induction evs) (simp_all add: watch_null_simps after_null_load_def foldl_watch_null_Some)

lemma after_null_load_None: "after_null_load evs = None \<longleftrightarrow> \<not> list_ex null_load evs"
  by (induction evs) (simp_all add: after_null_load_def)

lemmas null_eval = both_def watch_null_simps null_load_def

lemma main_null:
  "outs (both (snoc_some stage_of) watch_null) (main E) w ([], None)
     (\<lambda>r (sts, after). case after of None \<Rightarrow> True
        | Some rest \<Rightarrow> r = Inr VNone \<and> remdups_adj sts = [Load] \<and>
            rest = [Print ''Failed to load data. Please check the file path.''])"
  by (simp add: main_defs outs_simps prim_defs stage_eval null_eval
        cong: outs_weak_cong bind_weak_cong)

lemma interactive_null:
  "outs (both (snoc_some stage_of) watch_null) (interactive_analysis E) w ([], None)
     (\<lambda>r (sts, after). case after of None \<Rightarrow> True
        | Some rest \<Rightarrow> r = Inr VNone \<and> remdups_adj sts = [Load] \<and>
            rest = [Print ''Error: Could not load data file''])"
  by (simp add: interactive_defs outs_simps prim_defs stage_eval null_eval
        cong: outs_weak_cong bind_weak_cong)

lemma says_run: "says ls w = (Inr (), w, map Print ls)"
  by (induction ls arbitrary: w) (simp_all add: ret_def bind_def say_def)

lemma outs_bind_says:
  "outs step (bind (says ls) k) w a Q = outs step (k ()) w (foldl step a (map Print ls)) Q"
  by (simp add: outs_bind says_run)

lemma prints_no_null_load: "foldl watch_null None (map Print ls) = None"
  by (induction ls) (simp_all add: watch_null_simps null_load_def)

lemma main_py_null:
  "outs (both (snoc_some stage_of) watch_null) (main_py True E) w ([], None)
     (\<lambda>r (sts, after). case after of None \<Rightarrow> True
        | Some rest \<Rightarrow> r = Inr (Some VNone) \<and>
            rest = Print ''Failed to load data. Please check the file path.'' #
                   map Print main_epilogue)"
proof -
  have rest: "outs (both (snoc_some stage_of) watch_null)
      (bind (main E) (\<lambda>results. bind (says main_epilogue) (\<lambda>_. ret (Some results))))
      w' ([], None)
      (\<lambda>r (sts, after). case after of None \<Rightarrow> True
        | Some rest \<Rightarrow> r = Inr (Some VNone) \<and>
            rest = Print ''Failed to load data. Please check the file path.'' #
                   map Print main_epilogue)" for w'
  proof (rule outs_bind_mono [OF main_null], goal_cases)
    case (1 e b)
    then show ?case
      by (cases b) (simp split: option.splits)
  next
    case (2 x b w'')
    then show ?case
      by (cases b)
         (simp add: outs_bind_says outs_ret foldl_both foldl_watch_null_Some
            prints_no_null_load split: option.splits)
  qed
  show ?thesis
    unfolding main_py_def import_block_def
    by (simp add: outs_simps prim_defs stage_eval null_eval rest
          cong: outs_weak_cong bind_weak_cong)
qed

lemma jupyter_py_null:
  "outs (both (snoc_some stage_of) watch_null) (jupyter_analysis_py True E) w ([], None)
     (\<lambda>r (sts, after). case after of None \<Rightarrow> True
        | Some rest \<Rightarrow> r = Inr (Some VNone) \<and>
            rest = Print ''Error: Could not load data file'' # map Print jupyter_epilogue)"
proof -
  have rest: "outs (both (snoc_some stage_of) watch_null)
      (bind (interactive_analysis E)
         (\<lambda>results. bind (says jupyter_epilogue) (\<lambda>_. ret (Some results))))
      w' ([], None)
      (\<lambda>r (sts, after). case after of None \<Rightarrow> True
        | Some rest \<Rightarrow> r = Inr (Some VNone) \<and>
            rest = Print ''Error: Could not load data file'' # map Print jupyter_epilogue)" for w'
  proof (rule outs_bind_mono [OF interactive_null], goal_cases)
    case (1 e b)
    then show ?case
      by (cases b) (simp split: option.splits)
  next
    case (2 x b w'')
    then show ?case
      by (cases b)
         (simp add: outs_bind_says outs_ret foldl_both foldl_watch_null_Some
            prints_no_null_load split: option.splits)
  qed
  show ?thesis
    unfolding jupyter_analysis_py_def import_block_def
    by (simp add: outs_simps prim_defs stage_eval null_eval rest
          cong: outs_weak_cong bind_weak_cong)
qed

lemma bind_normal:
  assumes "outcome (bind m k w) = Inr y"
  shows "\<exists>x w1. outcome (m w) = Inr x \<and> outcome (k x w1) = Inr y \<and>
           suffix (events (k x w1)) (events (bind m k w))"
proof -
  obtain r w1 evs1 where run1: "m w = (r, w1, evs1)"
    by (cases "m w")
  show ?thesis
  proof (cases r)
    case (Inl e)
    with run1 assms show ?thesis
      by (simp add: bind_def outcome_def)
  next
    case (Inr x)
    obtain r2 w2 evs2 where run2: "k x w1 = (r2, w2, evs2)"
      by (cases "k x w1")
    with run1 Inr assms have "outcome (m w) = Inr x \<and> outcome (k x w1) = Inr y \<and>
        suffix (events (k x w1)) (events (bind m k w))"
      by (simp add: bind_def outcome_def events_def suffix_def)
    then show ?thesis
      by blast
  qed
qed

lemma epilogue_last:
  assumes "outcome (bind m (\<lambda>results. bind (says ls) (\<lambda>_. ret (f results))) w) = Inr y"
  shows "suffix (map Print ls)
           (events (bind m (\<lambda>results. bind (says ls) (\<lambda>_. ret (f results))) w))"
  using bind_normal [OF assms]
  by (auto simp add: bind_def says_run ret_def events_def)

lemma bind_normal_suffix:
  assumes ok: "outcome (bind m k w) = Inr y"
    and rest: "\<And>x w1. outcome (k x w1) = Inr y \<Longrightarrow> suffix S (events (k x w1))"
  shows "suffix S (events (bind m k w))"
proof -
  from bind_normal [OF ok] obtain x w1 where
    "outcome (k x w1) = Inr y" and tail: "suffix (events (k x w1)) (events (bind m k w))"
    by blast
  with rest [of x w1] show ?thesis
    by (meson suffix_order.trans)
qed

lemma main_py_epilogue:
  "outcome (main_py True E w) = Inr r \<Longrightarrow>
     suffix (map Print main_epilogue) (events (main_py True E w))"
  apply (simp only: main_py_def if_True)
  apply (erule bind_normal_suffix)
  apply (erule bind_normal_suffix)
  apply (erule epilogue_last)
  done

lemma jupyter_py_epilogue:
  "outcome (jupyter_analysis_py True E w) = Inr r \<Longrightarrow>
     suffix (map Print jupyter_epilogue) (events (jupyter_analysis_py True E w))"
  apply (simp only: jupyter_analysis_py_def if_True)
  apply (erule bind_normal_suffix)
  apply (erule bind_normal_suffix)
  apply (erule bind_normal_suffix)
  apply (erule bind_normal_suffix)
  apply (erule bind_normal_suffix)
  apply (erule bind_normal_suffix)
  apply (erule bind_normal_suffix)
  apply (erule epilogue_last)
  done

lemma null_load_seen:
  "list_ex null_load evs \<Longrightarrow> \<exists>rest. after_null_load evs = Some rest"
  using after_null_load_None [of evs] by (cases "after_null_load evs") auto

text \<open>
  Claim C1. The failed load is the only failure either script handles. When the loader
  returns \<^verbatim>\<open>None\<close>, the pipeline function (\<^verbatim>\<open>main\<close>, \<^verbatim>\<open>interactive_analysis\<close>) returns
  \<^verbatim>\<open>None\<close> normally, the only thing it still does is print its message, and no stage but
  the load has run. Nothing else is caught: a run of either script that ends normally is
  a run in which no operation raised.
\<close>

theorem only_failed_load_is_handled:
  "(list_ex null_load (events (main E w)) \<longrightarrow>
      outcome (main E w) = Inr VNone \<and> stages (events (main E w)) = [Load] \<and>
      after_null_load (events (main E w)) =
        Some [Print ''Failed to load data. Please check the file path.'']) \<and>
   (list_ex null_load (events (interactive_analysis E w')) \<longrightarrow>
      outcome (interactive_analysis E w') = Inr VNone \<and>
      stages (events (interactive_analysis E w')) = [Load] \<and>
      after_null_load (events (interactive_analysis E w')) =
        Some [Print ''Error: Could not load data file'']) \<and>
   (outcome (main_py s E v) = Inr x \<longrightarrow> failures (events (main_py s E v)) = []) \<and>
   (outcome (jupyter_analysis_py s' E v') = Inr x' \<longrightarrow>
      failures (events (jupyter_analysis_py s' E v')) = [])"
proof (intro conjI impI)
  assume "list_ex null_load (events (main E w))"
  then obtain rest where "after_null_load (events (main E w)) = Some rest"
    using null_load_seen by blast
  with outs_run [OF main_null, of E w]
  show "outcome (main E w) = Inr VNone" and "stages (events (main E w)) = [Load]"
    and "after_null_load (events (main E w)) =
           Some [Print ''Failed to load data. Please check the file path.'']"
    by (simp_all add: foldl_both foldl_snoc_some foldl_watch_null stages_def)
next
  assume "list_ex null_load (events (interactive_analysis E w'))"
  then obtain rest where "after_null_load (events (interactive_analysis E w')) = Some rest"
    using null_load_seen by blast
  with outs_run [OF interactive_null, of E w']
  show "outcome (interactive_analysis E w') = Inr VNone"
    and "stages (events (interactive_analysis E w')) = [Load]"
    and "after_null_load (events (interactive_analysis E w')) =
           Some [Print ''Error: Could not load data file'']"
    by (simp_all add: foldl_both foldl_snoc_some foldl_watch_null stages_def)
next
  assume "outcome (main_py s E v) = Inr x"
  with propagates_main_py show "failures (events (main_py s E v)) = []"
    by (rule propagates_normal)
next
  assume "outcome (jupyter_analysis_py s' E v') = Inr x'"
  with propagates_jupyter_py show "failures (events (jupyter_analysis_py s' E v')) = []"
    by (rule propagates_normal)
qed

lemma demo_main_null: "list_ex null_load (events (main (demo_env False []) 0))"
  by code_simp

lemma demo_interactive_null:
  "list_ex null_load (events (interactive_analysis (demo_env False []) 0))"
  by code_simp

theorem only_failed_load_is_handled_witness:
  "outcome (main (demo_env False []) 0) = Inr VNone \<and>
   stages (events (main (demo_env False []) 0)) = [Load] \<and>
   outcome (interactive_analysis (demo_env False []) 0) = Inr VNone \<and>
   stages (events (interactive_analysis (demo_env False []) 0)) = [Load] \<and>
   failures (events (main_py True (demo_env True []) 0)) = [] \<and>
   failures (events (jupyter_analysis_py True (demo_env True []) 0)) = []"
  using only_failed_load_is_handled [of "demo_env False []" 0 0 True 0 _ True 0]
    only_failed_load_is_handled [of "demo_env True []" 0 0 True 0 _ True 0]
    demo_main_null demo_interactive_null demo_main_py_ok demo_jupyter_py_ok
  by simp

text \<open>
  Claim C9. When the load fails in a script run as \<^verbatim>\<open>__main__\<close>, the pipeline function
  returns \<^verbatim>\<open>None\<close> (so \<^verbatim>\<open>results\<close> is \<^verbatim>\<open>None\<close>, not a dictionary), and after the failure
  message the script goes on to print its whole epilogue: the very lines that every
  normally ending run, the successful one included, ends with.
\<close>

theorem epilogue_runs_after_failed_load:
  "(list_ex null_load (events (main_py True E w)) \<longrightarrow>
      outcome (main_py True E w) = Inr (Some VNone) \<and>
      after_null_load (events (main_py True E w)) =
        Some (Print ''Failed to load data. Please check the file path.'' #
              map Print main_epilogue)) \<and>
   (outcome (main_py True E w) = Inr r \<longrightarrow>
      suffix (map Print main_epilogue) (events (main_py True E w))) \<and>
   (list_ex null_load (events (jupyter_analysis_py True E w')) \<longrightarrow>
      outcome (jupyter_analysis_py True E w') = Inr (Some VNone) \<and>
      after_null_load (events (jupyter_analysis_py True E w')) =
        Some (Print ''Error: Could not load data file'' # map Print jupyter_epilogue)) \<and>
   (outcome (jupyter_analysis_py True E w') = Inr r' \<longrightarrow>
      suffix (map Print jupyter_epilogue) (events (jupyter_analysis_py True E w')))"
proof (intro conjI impI)
  assume "list_ex null_load (events (main_py True E w))"
  then obtain rest where "after_null_load (events (main_py True E w)) = Some rest"
    using null_load_seen by blast
  with outs_run [OF main_py_null, of E w]
  show "outcome (main_py True E w) = Inr (Some VNone)"
    and "after_null_load (events (main_py True E w)) =
           Some (Print ''Failed to load data. Please check the file path.'' #
                 map Print main_epilogue)"
    by (simp_all add: foldl_both foldl_snoc_some foldl_watch_null)
next
  assume "outcome (main_py True E w) = Inr r"
  then show "suffix (map Print main_epilogue) (events (main_py True E w))"
    by (rule main_py_epilogue)
next
  assume "list_ex null_load (events (jupyter_analysis_py True E w'))"
  then obtain rest where "after_null_load (events (jupyter_analysis_py True E w')) = Some rest"
    using null_load_seen by blast
  with outs_run [OF jupyter_py_null, of E w']
  show "outcome (jupyter_analysis_py True E w') = Inr (Some VNone)"
    and "after_null_load (events (jupyter_analysis_py True E w')) =
           Some (Print ''Error: Could not load data file'' # map Print jupyter_epilogue)"
    by (simp_all add: foldl_both foldl_snoc_some foldl_watch_null)
next
  assume "outcome (jupyter_analysis_py True E w') = Inr r'"
  then show "suffix (map Print jupyter_epilogue) (events (jupyter_analysis_py True E w'))"
    by (rule jupyter_py_epilogue)
qed

lemma demo_main_py_null: "list_ex null_load (events (main_py True (demo_env False []) 0))"
  by code_simp

lemma demo_jupyter_py_null:
  "list_ex null_load (events (jupyter_analysis_py True (demo_env False []) 0))"
  by code_simp

theorem epilogue_runs_after_failed_load_witness:
  "outcome (main_py True (demo_env False []) 0) = Inr (Some VNone) \<and>
   suffix (map Print main_epilogue) (events (main_py True (demo_env False []) 0)) \<and>
   outcome (jupyter_analysis_py True (demo_env False []) 0) = Inr (Some VNone) \<and>
   suffix (map Print jupyter_epilogue)
     (events (jupyter_analysis_py True (demo_env False []) 0))"
  using epilogue_runs_after_failed_load [of "demo_env False []" 0 "Some VNone" 0 "Some VNone"]
    demo_main_py_null demo_jupyter_py_null
  by simp

section \<open>The report after tuning\<close>

lemmas report_eval = both_def snoc_some_def tuning_view_def watch_report_def next_watch_def
  next_facts_def is_metric_def key_test_r2_def

lemma main_report:
  "outs (both (snoc_some tuning_view) watch_report) (main E) w ([], (Idle, []))
     (\<lambda>r (tv, (p, facts)). case r of Inr (VDict d) \<Rightarrow>
        (\<exists>pre fr row t1 t2 t3 t4 t5 t6.
           tv = [Evaluated pre, Tuned [VStr ''Random Forest''],
                 Tuned [VStr ''Gradient Boosting''], Evaluated fr] \<and>
           facts = [BestRow fr row,
                 MetricLine row ''Model'' [] t1 (''- Model: '' @ t1),
                 MetricLine row key_test_r2 ''.4f'' t2 (''- '' @ key_test_r2 @ '': '' @ t2),
                 MetricLine row ''Test RMSE'' ''.4f'' t3 (''- Test RMSE: '' @ t3),
                 MetricLine row ''Test MAE'' ''.4f'' t4 (''- Test MAE: '' @ t4),
                 MetricLine row key_test_r2 ''.1%'' t5
                    (''- Model can predict movie ratings with '' @ t5 @ '' accuracy''),
                 MetricLine row ''Test RMSE'' ''.2f'' t6
                    (''- Average prediction error: '' @ plus_minus @ t6 @ '' rating points'')])
      | _ \<Rightarrow> True)"
  by (simp add: main_defs outs_simps prim_defs report_eval split: val.splits
        cong: outs_weak_cong bind_weak_cong)


lemma demo_main_ok:
  "outcome (main (demo_env True []) 0) =
     Inr (VDict [(''cleaned_data'', VObj 0), (''features'', VObj 2), (''target'', VObj 3),
        (''model_results'', VObj 102), (''eda_report'', VObj 0), (''predictor'', VObj 10)])"
  by code_simp

lemma demo_interactive_ok:
  "outcome (interactive_analysis (demo_env True []) 0) =
     Inr (VDict [(''data'', VObj 0), (''eda_report'', VObj 0),
        (''model_results'', VObj 100), (''predictor'', VObj 10),
        (''feature_importance'', VObj 0)])"
  by code_simp

text \<open>
  Claim C3. In every successful run of \<^verbatim>\<open>main\<close> the modeling calls are: an evaluation, the
  tuning of 'Random Forest', the tuning of 'Gradient Boosting', and a second evaluation. The
  row the report reads is row 0 of the table \<open>fr\<close> that this second evaluation returned, and
  each of the six metric lines printed shows a field of that row.
\<close>

theorem report_uses_post_tuning_evaluation:
  assumes ok: "outcome (main E w) = Inr (VDict d)"
  shows "\<exists>pre fr row t1 t2 t3 t4 t5 t6.
           List.map_filter tuning_view (events (main E w)) =
             [Evaluated pre, Tuned [VStr ''Random Forest''],
              Tuned [VStr ''Gradient Boosting''], Evaluated fr] \<and>
           report_facts (events (main E w)) =
             [BestRow fr row,
              MetricLine row ''Model'' [] t1 (''- Model: '' @ t1),
              MetricLine row key_test_r2 ''.4f'' t2 (''- '' @ key_test_r2 @ '': '' @ t2),
              MetricLine row ''Test RMSE'' ''.4f'' t3 (''- Test RMSE: '' @ t3),
              MetricLine row ''Test MAE'' ''.4f'' t4 (''- Test MAE: '' @ t4),
              MetricLine row key_test_r2 ''.1%'' t5
                (''- Model can predict movie ratings with '' @ t5 @ '' accuracy''),
              MetricLine row ''Test RMSE'' ''.2f'' t6
                (''- Average prediction error: '' @ plus_minus @ t6 @ '' rating points'')]"
  using outs_run [OF main_report, of E w] ok
  by (simp add: foldl_both foldl_snoc_some report_facts_def case_prod_beta)

theorem report_uses_post_tuning_evaluation_witness:
  "\<exists>pre fr row t1 t2 t3 t4 t5 t6.
     List.map_filter tuning_view (events (main (demo_env True []) 0)) =
       [Evaluated pre, Tuned [VStr ''Random Forest''],
        Tuned [VStr ''Gradient Boosting''], Evaluated fr] \<and>
     report_facts (events (main (demo_env True []) 0)) =
       [BestRow fr row,
        MetricLine row ''Model'' [] t1 (''- Model: '' @ t1),
        MetricLine row key_test_r2 ''.4f'' t2 (''- '' @ key_test_r2 @ '': '' @ t2),
        MetricLine row ''Test RMSE'' ''.4f'' t3 (''- Test RMSE: '' @ t3),
        MetricLine row ''Test MAE'' ''.4f'' t4 (''- Test MAE: '' @ t4),
        MetricLine row key_test_r2 ''.1%'' t5
          (''- Model can predict movie ratings with '' @ t5 @ '' accuracy''),
        MetricLine row ''Test RMSE'' ''.2f'' t6
          (''- Average prediction error: '' @ plus_minus @ t6 @ '' rating points'')]"
  by (rule report_uses_post_tuning_evaluation [OF demo_main_ok])

section \<open>What main returns\<close>

lemma rule_of_not_best_year: "\<not> prefix ''- Best year for movies: '' (rule_of n)"
  by (cases n) (simp_all add: rule_of_def)

lemmas yearly_eval = both_def snoc_some_def tuning_view_def yearly_view_def
  rule_of_not_best_year nl_def key_test_r2_def

lemma main_results:
  "outs (both (snoc_some tuning_view) (snoc_some yearly_view)) (main E) w ([], [])
     (\<lambda>r (tv, yv). case r of Inr (VDict d) \<Rightarrow>
        map fst d = [''cleaned_data'', ''features'', ''target'', ''model_results'',
                     ''eda_report'', ''predictor''] \<and>
        (\<exists>pre fr. tv = [Evaluated pre, Tuned [VStr ''Random Forest''],
                         Tuned [VStr ''Gradient Boosting''], Evaluated fr] \<and>
                   map_of d ''model_results'' = Some fr) \<and>
        (\<exists>er. map_of d ''eda_report'' = Some er \<and>
           (BestYearLine \<in> set yv \<longleftrightarrow>
              (\<exists>v rest. v \<noteq> VNone \<and> yv = Asked er True # Got er v # rest)))
      | _ \<Rightarrow> True)"
  by (simp add: main_defs outs_simps prim_defs yearly_eval
        cong: outs_weak_cong bind_weak_cong)


text \<open>
  Claim C10. A successful run of \<^verbatim>\<open>main\<close> returns a dictionary whose keys are exactly
  'cleaned\_data', 'features', 'target', 'model\_results', 'eda\_report' and 'predictor';
  'model\_results' is the table of the evaluation made after the two tunings; and the
  "best year" line is printed exactly when the returned EDA report answered that it
  contains 'yearly\_ratings' and then gave a value other than \<^verbatim>\<open>None\<close> for it.
\<close>

theorem main_returns_results:
  assumes ok: "outcome (main E w) = Inr (VDict d)"
  shows "map fst d = [''cleaned_data'', ''features'', ''target'', ''model_results'',
                      ''eda_report'', ''predictor''] \<and>
         (\<exists>pre fr. List.map_filter tuning_view (events (main E w)) =
                      [Evaluated pre, Tuned [VStr ''Random Forest''],
                       Tuned [VStr ''Gradient Boosting''], Evaluated fr] \<and>
                    map_of d ''model_results'' = Some fr) \<and>
         (\<exists>er. map_of d ''eda_report'' = Some er \<and>
            (BestYearLine \<in> set (List.map_filter yearly_view (events (main E w))) \<longleftrightarrow>
               (\<exists>v rest. v \<noteq> VNone \<and>
                  List.map_filter yearly_view (events (main E w)) =
                    Asked er True # Got er v # rest)))"
  using outs_run [OF main_results, of E w] ok
  by (simp add: foldl_both foldl_snoc_some del: map_of_eq_Some_iff)

theorem main_returns_results_witness:
  "map fst [(''cleaned_data'', VObj 0), (''features'', VObj 2), (''target'', VObj 3),
        (''model_results'', VObj 102), (''eda_report'', VObj 0), (''predictor'', VObj 10)] =
     [''cleaned_data'', ''features'', ''target'', ''model_results'', ''eda_report'',
      ''predictor''] \<and>
   (\<exists>pre fr. List.map_filter tuning_view (events (main (demo_env True []) 0)) =
                [Evaluated pre, Tuned [VStr ''Random Forest''],
                 Tuned [VStr ''Gradient Boosting''], Evaluated fr] \<and>
              map_of [(''cleaned_data'', VObj 0), (''features'', VObj 2), (''target'', VObj 3),
                (''model_results'', VObj 102), (''eda_report'', VObj 0),
                (''predictor'', VObj 10)] ''model_results'' = Some fr) \<and>
   (\<exists>er. map_of [(''cleaned_data'', VObj 0), (''features'', VObj 2), (''target'', VObj 3),
            (''model_results'', VObj 102), (''eda_report'', VObj 0),
            (''predictor'', VObj 10)] ''eda_report'' = Some er \<and>
      (BestYearLine \<in> set (List.map_filter yearly_view (events (main (demo_env True []) 0)))
         \<longleftrightarrow>
       (\<exists>v rest. v \<noteq> VNone \<and>
          List.map_filter yearly_view (events (main (demo_env True []) 0)) =
            Asked er True # Got er v # rest)))"
  by (rule main_returns_results [OF demo_main_ok])

section \<open>The two pipelines compared\<close>

lemmas calls_eval = both_def snoc_some_def tuning_view_def pipeline_call_def
  class_stage_def method_stage_def

lemma main_pipeline:
  "outs (both (snoc_some pipeline_call) (snoc_some tuning_view)) (main E) w ([], [])
     (\<lambda>r (pc, tv). case r of Inr (VDict d) \<Rightarrow>
        pc = main_calls \<and>
        (\<exists>pre fr. tv = [Evaluated pre, Tuned [VStr ''Random Forest''],
                         Tuned [VStr ''Gradient Boosting''], Evaluated fr] \<and>
                   map_of d ''model_results'' = Some fr)
      | _ \<Rightarrow> True)"
  by (simp add: main_defs outs_simps prim_defs calls_eval main_calls_def
        cong: outs_weak_cong bind_weak_cong)

lemma interactive_pipeline:
  "outs (both (snoc_some pipeline_call) (snoc_some tuning_view)) (interactive_analysis E) w
     ([], [])
     (\<lambda>r (pc, tv). case r of Inr (VDict d) \<Rightarrow>
        pc = interactive_calls \<and>
        (\<exists>only. tv = [Evaluated only] \<and> map_of d ''model_results'' = Some only)
      | _ \<Rightarrow> True)"
  by (simp add: interactive_defs outs_simps prim_defs calls_eval interactive_calls_def
        cong: outs_weak_cong bind_weak_cong)

lemma calls_subseq: "subseq (map fst interactive_calls) (map fst main_calls)"
  by code_simp

text \<open>
  Claim C8, amended. The two pipeline functions do not make the same calls. A successful
  \<^verbatim>\<open>main\<close> makes the calls \<open>main_calls\<close> and returns as 'model\_results' the table evaluated
  after tuning 'Random Forest' and 'Gradient Boosting'; a successful
  \<^verbatim>\<open>interactive_analysis\<close> makes the calls \<open>interactive_calls\<close>, tunes nothing, and returns the
  table of its only evaluation. The names called by \<^verbatim>\<open>interactive_analysis\<close> are a
  subsequence of those called by \<^verbatim>\<open>main\<close>.
\<close>

theorem scripts_differ_in_tuning:
  "(outcome (main E w) = Inr (VDict d) \<longrightarrow>
      pipeline_calls (events (main E w)) = main_calls \<and>
      (\<exists>pre fr. List.map_filter tuning_view (events (main E w)) =
                   [Evaluated pre, Tuned [VStr ''Random Forest''],
                    Tuned [VStr ''Gradient Boosting''], Evaluated fr] \<and>
                 results_table (outcome (main E w)) = Some fr)) \<and>
   (outcome (interactive_analysis E w') = Inr (VDict d') \<longrightarrow>
      pipeline_calls (events (interactive_analysis E w')) = interactive_calls \<and>
      (\<exists>only. List.map_filter tuning_view (events (interactive_analysis E w')) =
                 [Evaluated only] \<and>
               results_table (outcome (interactive_analysis E w')) = Some only)) \<and>
   subseq (map fst interactive_calls) (map fst main_calls)"
  using outs_run [OF main_pipeline, of E w] outs_run [OF interactive_pipeline, of E w']
    calls_subseq
  by (auto simp add: foldl_both foldl_snoc_some pipeline_calls_def results_table_def)

theorem scripts_differ_in_tuning_witness:
  "pipeline_calls (events (main (demo_env True []) 0)) = main_calls \<and>
   pipeline_calls (events (interactive_analysis (demo_env True []) 0)) = interactive_calls \<and>
   (\<exists>fr. results_table (outcome (main (demo_env True []) 0)) = Some fr) \<and>
   (\<exists>only. results_table (outcome (interactive_analysis (demo_env True []) 0)) = Some only)"
  using scripts_differ_in_tuning [of "demo_env True []" 0 _ 0] demo_main_ok demo_interactive_ok
  by auto

text \<open>
  Claim C8 as stated fails in the demo environment, where tuning changes the table: from the
  same start the two functions differ both in their pipeline calls and in the table they
  return.
\<close>

theorem scripts_equivalent_counterexample:
  "pipeline_calls (events (main (demo_env True []) 0)) \<noteq>
     pipeline_calls (events (interactive_analysis (demo_env True []) 0)) \<and>
   results_table (outcome (main (demo_env True []) 0)) \<noteq>
     results_table (outcome (interactive_analysis (demo_env True []) 0))"
  by code_simp

section \<open>What a module does when it is imported\<close>

lemmas import_eval = both_def snoc_some_def module_effect_def attr_read_def warnings_filter_def

lemma main_py_import:
  "outs (snoc_some module_effect) (main_py False E) w []
     (\<lambda>r acc. case r of Inr x \<Rightarrow> acc = [warnings_filter] | Inl e \<Rightarrow> True)"
  by (simp add: main_py_def import_block_def outs_simps prim_defs import_eval
        cong: outs_weak_cong bind_weak_cong)

lemma jupyter_py_import:
  "outs (both (snoc_some module_effect) (snoc_some attr_read)) (jupyter_analysis_py False E) w
     ([], [])
     (\<lambda>r (acc, reads). case r of
        Inr x \<Rightarrow>
          (\<exists>style rc.
             acc = [warnings_filter,
                    CallMethod style ''use'' [VStr ''seaborn-v0_8''] [],
                    CallMethod (VGlobal ''sns'') ''set_palette'' [VStr ''husl''] [],
                    SetItem rc (VStr ''figure.figsize'') (VTuple [VInt 12, VInt 8])] \<and>
             reads = [(VGlobal ''plt'', ''style'', style), (VGlobal ''plt'', ''rcParams'', rc)])
      | Inl e \<Rightarrow> True)"
  by (simp add: jupyter_analysis_py_def import_block_def outs_simps prim_defs import_eval
        cong: outs_weak_cong bind_weak_cong)

lemma demo_main_py_imported: "outcome (main_py False (demo_env True []) 0) = Inr None"
  by code_simp

lemma demo_jupyter_py_imported:
  "outcome (jupyter_analysis_py False (demo_env True []) 0) = Inr None"
  by code_simp

text \<open>
  Claim C5, amended. Importing main.py changes nothing outside the module but the warnings
  filter. Importing jupyter\_analysis.py does more: after the warnings filter it selects the
  matplotlib style 'seaborn-v0\_8', sets the seaborn palette 'husl', and assigns the default
  figure size (12, 8) in \<^verbatim>\<open>plt.rcParams\<close>.
\<close>

theorem import_time_effects:
  "(outcome (main_py False E w) = Inr r \<longrightarrow>
      module_effects (events (main_py False E w)) = [warnings_filter]) \<and>
   (outcome (jupyter_analysis_py False E w') = Inr r' \<longrightarrow>
      (\<exists>style rc.
         module_effects (events (jupyter_analysis_py False E w')) =
           [warnings_filter,
            CallMethod style ''use'' [VStr ''seaborn-v0_8''] [],
            CallMethod (VGlobal ''sns'') ''set_palette'' [VStr ''husl''] [],
            SetItem rc (VStr ''figure.figsize'') (VTuple [VInt 12, VInt 8])] \<and>
         List.map_filter attr_read (events (jupyter_analysis_py False E w')) =
           [(VGlobal ''plt'', ''style'', style), (VGlobal ''plt'', ''rcParams'', rc)]))"
  using outs_run [OF main_py_import, of E w] outs_run [OF jupyter_py_import, of E w']
  by (auto simp add: foldl_both foldl_snoc_some module_effects_def)

theorem import_time_effects_witness:
  "module_effects (events (main_py False (demo_env True []) 0)) = [warnings_filter] \<and>
   (\<exists>style rc.
      module_effects (events (jupyter_analysis_py False (demo_env True []) 0)) =
        [warnings_filter,
         CallMethod style ''use'' [VStr ''seaborn-v0_8''] [],
         CallMethod (VGlobal ''sns'') ''set_palette'' [VStr ''husl''] [],
         SetItem rc (VStr ''figure.figsize'') (VTuple [VInt 12, VInt 8])] \<and>
      List.map_filter attr_read (events (jupyter_analysis_py False (demo_env True []) 0)) =
        [(VGlobal ''plt'', ''style'', style), (VGlobal ''plt'', ''rcParams'', rc)])"
  using import_time_effects [of "demo_env True []" 0 None 0 None]
    demo_main_py_imported demo_jupyter_py_imported
  by simp

text \<open>
  Claim C5 as stated fails for jupyter\_analysis.py: in the demo environment its import
  does not leave the warnings filter as the only effect.
\<close>

theorem only_warnings_filter_counterexample:
  "module_effects (events (jupyter_analysis_py False (demo_env True []) 0)) \<noteq> [warnings_filter]"
  by code_simp

section \<open>The scripts stay within their interface\<close>

named_theorems confined_intros

lemma confined_ret [confined_intros]: "confined (ret x)"
  by (simp add: confined_def ret_def events_def)

lemma confined_raise [confined_intros]: "confined (raise e)"
  by (simp add: confined_def raise_def events_def)

lemma confined_say [confined_intros]: "confined (say l)"
  by (simp add: confined_def say_def events_def script_event_def)

lemma confined_ext [confined_intros]: "script_op opn \<Longrightarrow> confined (ext f enc opn)"
  by (auto simp add: confined_def ext_def events_def script_event_def
        split: prod.splits sum.splits)

lemma confined_bind [confined_intros]:
  assumes m: "confined m" and k: "\<And>x. confined (k x)"
  shows "confined (bind m k)"
  unfolding confined_def
proof
  fix w
  obtain r w1 evs1 where run1: "m w = (r, w1, evs1)"
    by (cases "m w")
  from m [unfolded confined_def, rule_format, of w] run1 have first: "list_all script_event evs1"
    by (simp add: events_def)
  show "list_all script_event (events (bind m k w))"
  proof (cases r)
    case (Inl e)
    with run1 first show ?thesis
      by (simp add: bind_def events_def)
  next
    case (Inr x)
    obtain r2 w2 evs2 where run2: "k x w1 = (r2, w2, evs2)"
      by (cases "k x w1")
    from k [of x, unfolded confined_def, rule_format, of w1] run2
    have "list_all script_event evs2"
      by (simp add: events_def)
    with first run1 run2 Inr show ?thesis
      by (simp add: bind_def events_def)
  qed
qed

lemma confined_if [confined_intros]:
  "confined A \<Longrightarrow> confined B \<Longrightarrow> confined (if c then A else B)"
  by simp

lemma confined_case_prod [confined_intros]:
  "(\<And>a b. confined (f a b)) \<Longrightarrow> confined (case_prod f p)"
  by (cases p) simp

lemma confined_says [confined_intros]: "confined (says ls)"
  by (induction ls) (auto intro: confined_intros)

lemma confined_unpack2 [confined_intros]: "confined (unpack2 E v)"
  unfolding unpack2_def ext_list_def
  by (intro confined_bind confined_ext)
     (auto intro: confined_intros simp add: script_op_def split: list.splits)













end
